theory Spec2Isabelle
  imports Main
begin

section \<open>The gateway of Robo_backend\<close>

text \<open>
  The repository holds two variants of one Express application: \<^verbatim>\<open>src/index.js\<close> and an
  earlier one, \<^verbatim>\<open>src/unnamed/part_000\<close>. Both register the same thirteen GET routes; eleven
  of them hand the request to \<^verbatim>\<open>createProxyMiddleware(options)\<close> of http-proxy-middleware.
  The options objects, the callbacks in them, the command lists and the local handlers are
  embedded from the two files. Express, the cors package, http-proxy-middleware (1.x/2.x,
  the versions that read \<^verbatim>\<open>onProxyRes\<close> and \<^verbatim>\<open>onError\<close> from the options) and http-proxy are
  not part of the repository; what the routes need of them is written out below, each
  definition naming the library function it follows.

  An inbound request carries a method, the raw request target and headers. It has no body:
  \<^verbatim>\<open>express.json()\<close> therefore passes it on untouched, and \<^verbatim>\<open>express.static\<close> is taken to find
  no file for it (the \<^verbatim>\<open>public\<close> directory is not among the sources).
\<close>

subsection \<open>Strings and header objects of JavaScript\<close>

definition lower_char :: "char \<Rightarrow> char" where
  "lower_char c =
     (case map_of (zip ''ABCDEFGHIJKLMNOPQRSTUVWXYZ'' ''abcdefghijklmnopqrstuvwxyz'') c of
        Some l \<Rightarrow> l
      | None \<Rightarrow> c)"

definition toLowerCase :: "string \<Rightarrow> string" where
  "toLowerCase s = map lower_char s"

text \<open>The part of a request target before the first \<^verbatim>\<open>?\<close>, and the rest (with its \<^verbatim>\<open>?\<close>).\<close>

definition pathname :: "string \<Rightarrow> string" where
  "pathname u = takeWhile (\<lambda>c. c \<noteq> CHR ''?'') u"

definition search :: "string \<Rightarrow> string" where
  "search u = dropWhile (\<lambda>c. c \<noteq> CHR ''?'') u"

type_synonym headers = "(string \<times> string) list"

text \<open>
  \<^verbatim>\<open>obj[k] = v\<close> on a JavaScript object: an existing key keeps its place and takes the new
  value, a new key is added after the others (\<^verbatim>\<open>Object.keys\<close> lists keys in that order).
\<close>

fun js_assign :: "headers \<Rightarrow> string \<Rightarrow> string \<Rightarrow> headers" where
  "js_assign [] k v = [(k, v)]"
| "js_assign ((k', v') # h) k v =
     (if k' = k then (k, v) # h else (k', v') # js_assign h k v)"

subsection \<open>Requests, responses, upstream devices\<close>

datatype http_method = GET | HEAD | POST | PUT | DELETE | OPTIONS

record request =
  req_method :: http_method
  req_url :: string
  req_headers :: headers

datatype body =
    Empty
  | Json "(string \<times> string) list"
  | Text string
  | Chunks "string list"
  | Not_found_page

text \<open>
  The response object \<^verbatim>\<open>res\<close>. A body is kept by its kind: the object given to \<^verbatim>\<open>res.json\<close>,
  the string given to \<^verbatim>\<open>res.send\<close>, or the chunks piped in from an upstream response, in
  order. Serialisation and the headers Express derives from a body (Content-Type,
  Content-Length, ETag) are not modelled.
\<close>

record response =
  headersSent :: bool
  statusCode :: nat
  res_headers :: headers
  res_body :: body

datatype exn = ERR_HTTP_HEADERS_SENT | TypeError string

record upstream_request =
  up_host :: string
  up_method :: http_method
  up_path :: string
  up_headers :: headers

text \<open>
  What a device does with a request of the gateway: the connection fails with an error
  code before any response (\<open>Unreachable\<close>); the device answers with a status, headers and
  body chunks (\<open>Responded\<close>); or it begins to answer, with a status, headers and some chunks,
  and the connection then fails with an error code (\<open>Reset\<close>).
\<close>

datatype upstream_outcome =
    Unreachable string
  | Responded nat headers "string list"
  | Reset nat headers "string list" string

record world =
  upstream :: "upstream_request \<Rightarrow> upstream_outcome"
  clock :: string

text \<open>
  What handling one request did: the upstream requests issued (\<^verbatim>\<open>http.request\<close> calls of
  http-proxy), the lines written with \<^verbatim>\<open>console.error\<close>, the response as far as the client
  got it, and the exception, if any, that a callback raised after these effects. Nothing
  catches an exception raised in a callback of the proxy: the process ends with it. A
  handler that raises at once, before any of this, gives \<open>Inl\<close> of the exception instead.
\<close>

record outcome =
  upstream_calls :: "upstream_request list"
  console :: "string list"
  reply :: response
  uncaught :: "exn option"

subsection \<open>The response methods of Node and Express\<close>

text \<open>\<^verbatim>\<open>res.setHeader\<close> and \<^verbatim>\<open>res.getHeader\<close> file a header under its lower-cased name.\<close>

definition setHeader :: "string \<Rightarrow> string \<Rightarrow> response \<Rightarrow> response" where
  "setHeader k v res = res\<lparr>res_headers := js_assign (res_headers res) (toLowerCase k) v\<rparr>"

definition getHeader :: "response \<Rightarrow> string \<Rightarrow> string option" where
  "getHeader res k = map_of (res_headers res) (toLowerCase k)"

definition res_status :: "nat \<Rightarrow> response \<Rightarrow> response" where
  "res_status n res = res\<lparr>statusCode := n\<rparr>"

text \<open>
  \<^verbatim>\<open>res.json(obj)\<close> and \<^verbatim>\<open>res.send(text)\<close> set headers and end the response; on a response
  whose headers are already sent, setting a header raises \<^verbatim>\<open>ERR_HTTP_HEADERS_SENT\<close>.
\<close>

definition res_json :: "(string \<times> string) list \<Rightarrow> response \<Rightarrow> exn + response" where
  "res_json obj res =
     (if headersSent res then Inl ERR_HTTP_HEADERS_SENT
      else Inr (res\<lparr>headersSent := True, res_body := Json obj\<rparr>))"

definition res_send :: "string \<Rightarrow> response \<Rightarrow> exn + response" where
  "res_send text res =
     (if headersSent res then Inl ERR_HTTP_HEADERS_SENT
      else Inr (res\<lparr>headersSent := True, res_body := Text text\<rparr>))"

text \<open>The response as Express hands it to the first middleware.\<close>

definition fresh_response :: response where
  "fresh_response =
     \<lparr>headersSent = False, statusCode = 200,
      res_headers = [(''x-powered-by'', ''Express'')], res_body = Empty\<rparr>"

subsection \<open>http-proxy-middleware and http-proxy\<close>

text \<open>
  The options object given to \<^verbatim>\<open>createProxyMiddleware\<close>. A key that an object literal of the
  source does not have is \<open>None\<close>. \<open>timeout\<close> and \<open>proxyTimeout\<close> are the two options by which
  http-proxy bounds the time of the inbound and of the upstream socket.
  \<open>onProxyRes\<close> acts on \<^verbatim>\<open>proxyRes.headers\<close>, the only part of its arguments that the
  callbacks of the source touch; \<open>onError\<close> gets the error, the request and the response and
  gives the lines it logs and the response it leaves (or the exception it raises).
\<close>

record proxy_options =
  target :: string
  changeOrigin :: bool
  pathRewrite :: "(string \<times> string) list"
  onProxyRes :: "(headers \<Rightarrow> headers) option"
  onError :: "(string \<Rightarrow> request \<Rightarrow> response \<Rightarrow> string list \<times> (exn + response)) option"
  timeout :: "nat option"
  proxyTimeout :: "nat option"

text \<open>
  \<^verbatim>\<open>pathRewrite\<close>: the first rule whose regular expression matches rewrites the path. Every
  key of the source is \<^verbatim>\<open>^\<close> followed by letters, digits, \<^verbatim>\<open>/\<close> and \<^verbatim>\<open>_\<close>, that is, a literal
  anchored at the start; other keys are not interpreted and match nothing here.
\<close>

definition regex_test :: "string \<Rightarrow> string \<Rightarrow> bool" where
  "regex_test rx p =
     (case rx of
        [] \<Rightarrow> False
      | c # lit \<Rightarrow> c = CHR ''^'' \<and> take (length lit) p = lit)"

fun rewritePath :: "(string \<times> string) list \<Rightarrow> string \<Rightarrow> string" where
  "rewritePath [] p = p"
| "rewritePath ((rx, v) # rules) p =
     (if regex_test rx p then v @ drop (length rx - 1) p else rewritePath rules p)"

text \<open>The target is a URL \<^verbatim>\<open>http://host\<close> or \<^verbatim>\<open>http://host/path\<close>; an empty path reads \<^verbatim>\<open>/\<close>.\<close>

definition url_rest :: "string \<Rightarrow> string" where
  "url_rest t = (if take 7 t = ''http://'' then drop 7 t else t)"

definition url_host :: "string \<Rightarrow> string" where
  "url_host t = takeWhile (\<lambda>c. c \<noteq> CHR ''/'') (url_rest t)"

definition url_path :: "string \<Rightarrow> string" where
  "url_path t =
     (let p = dropWhile (\<lambda>c. c \<noteq> CHR ''/'') (url_rest t) in if p = [] then ''/'' else p)"

text \<open>
  \<^verbatim>\<open>urlJoin\<close> of http-proxy puts the target's path before the request's path: the query is
  set aside, the non-empty parts are joined with \<^verbatim>\<open>/\<close>, runs of \<^verbatim>\<open>/\<close> become one, and the
  query is put back. (Its repair of \<^verbatim>\<open>http:/\<close> inside a path is left out: no path with a
  colon matches a route of this application.)
\<close>

fun collapse_slashes :: "string \<Rightarrow> string" where
  "collapse_slashes (a # b # s) =
     (if a = CHR ''/'' \<and> b = CHR ''/'' then collapse_slashes (b # s)
      else a # collapse_slashes (b # s))"
| "collapse_slashes s = s"

definition urlJoin :: "string \<Rightarrow> string \<Rightarrow> string" where
  "urlJoin tp url =
     (let joined =
        (case filter (\<lambda>s. s \<noteq> []) [tp, pathname url] of
           [] \<Rightarrow> []
         | [a] \<Rightarrow> a
         | a # b # _ \<Rightarrow> a @ ''/'' @ b)
      in collapse_slashes joined @ search url)"

text \<open>
  \<^verbatim>\<open>setupOutgoing\<close>: the upstream request has the inbound method and headers, the joined
  path, and with \<open>changeOrigin\<close> the target's host as its \<^verbatim>\<open>host\<close> header. (Node lists request
  headers under lower-case names. The \<^verbatim>\<open>connection\<close> header that http-proxy also sets is
  left out.)
\<close>

definition setupOutgoing :: "proxy_options \<Rightarrow> request \<Rightarrow> upstream_request" where
  "setupOutgoing opts req =
     \<lparr>up_host = url_host (target opts),
      up_method = req_method req,
      up_path = urlJoin (url_path (target opts)) (req_url req),
      up_headers =
        (if changeOrigin opts then js_assign (req_headers req) ''host'' (url_host (target opts))
         else req_headers req)\<rparr>"

text \<open>
  \<^verbatim>\<open>writeHeaders\<close> copies every key of \<^verbatim>\<open>proxyRes.headers\<close>, in the order of the keys, onto the
  response with \<^verbatim>\<open>res.setHeader\<close>.
\<close>

definition writeHeaders :: "headers \<Rightarrow> response \<Rightarrow> response" where
  "writeHeaders hs res = fold (\<lambda>(k, v). setHeader k v) hs res"

text \<open>
  The error handler of http-proxy-middleware for options without \<open>onError\<close>: unless the
  headers are sent it sets a status by error code (502 for the parser's \<^verbatim>\<open>HPE_INVALID\<close>
  codes), and it ends the response with a text naming host and path.
\<close>

definition defaultErrorHandler ::
  "string \<Rightarrow> request \<Rightarrow> response \<Rightarrow> string list \<times> (exn + response)" where
  "defaultErrorHandler err req res =
     (let message = ''Error occurred while trying to proxy: ''
                    @ (case map_of (req_headers req) ''host'' of
                         Some h \<Rightarrow> h
                       | None \<Rightarrow> ''undefined'')
                    @ req_url req
      in ([],
          Inr ((if headersSent res then res
                else res_status
                       (if take 11 err = ''HPE_INVALID'' then 502
                        else if err \<in> set [''ECONNRESET'', ''ENOTFOUND'', ''ECONNREFUSED'',
                                          ''ETIMEDOUT'']
                        then 504 else 500) res)
               \<lparr>headersSent := True,
                res_body := (case res_body res of
                               Chunks cs \<Rightarrow> Chunks (cs @ [message])
                             | _ \<Rightarrow> Text message)\<rparr>)))"

text \<open>
  The response once the answer of the upstream has begun: \<open>onProxyRes\<close> has run on the
  upstream headers, headers and status are copied to the response, and the body chunks
  received are piped through.
\<close>

definition relayed :: "proxy_options \<Rightarrow> nat \<Rightarrow> headers \<Rightarrow> string list \<Rightarrow> response \<Rightarrow> response" where
  "relayed opts st hs chunks res =
     (writeHeaders (case onProxyRes opts of Some f \<Rightarrow> f hs | None \<Rightarrow> hs) res)
       \<lparr>headersSent := True, statusCode := st, res_body := Chunks chunks\<rparr>"

text \<open>
  What the error callback leaves: the lines it logged and the response it wrote, or, when
  it raised, the lines it had logged, the response as it was, and the exception.
\<close>

definition failed ::
  "upstream_request \<Rightarrow> response \<Rightarrow> string list \<times> (exn + response) \<Rightarrow> outcome" where
  "failed out res r =
     (case r of
        (lines, Inl e) \<Rightarrow>
          \<lparr>upstream_calls = [out], console = lines, reply = res, uncaught = Some e\<rparr>
      | (lines, Inr res') \<Rightarrow>
          \<lparr>upstream_calls = [out], console = lines, reply = res', uncaught = None\<rparr>)"

text \<open>
  The middleware: rewrite the path and issue one upstream request. When the connection
  fails before an answer, the error callback runs on the untouched response; when the
  upstream answers, the answer is relayed; when the connection fails after the answer has
  begun, the error callback runs on the response already under way. The middleware is
  entered with a response of which nothing has been sent.
\<close>

definition proxy :: "proxy_options \<Rightarrow> world \<Rightarrow> request \<Rightarrow> response \<Rightarrow> exn + outcome" where
  "proxy opts w req res =
     (let req' = req\<lparr>req_url := rewritePath (pathRewrite opts) (req_url req)\<rparr>;
          out = setupOutgoing opts req';
          on_error = (case onError opts of Some h \<Rightarrow> h | None \<Rightarrow> defaultErrorHandler)
      in Inr (case upstream w out of
                Unreachable err \<Rightarrow> failed out res (on_error err req' res)
              | Responded st hs chunks \<Rightarrow>
                  \<lparr>upstream_calls = [out], console = [],
                   reply = relayed opts st hs chunks res, uncaught = None\<rparr>
              | Reset st hs chunks err \<Rightarrow>
                  failed out (relayed opts st hs chunks res)
                    (on_error err req' (relayed opts st hs chunks res))))"

subsection \<open>Express: middleware and routing\<close>

text \<open>
  \<^verbatim>\<open>app.use(cors({origin: '*', methods: ['GET', 'POST', 'OPTIONS'],
  allowedHeaders: ['Content-Type', 'User-Agent']}))\<close>, in both files. A preflight request
  (OPTIONS) is answered by cors itself with status 204; on any other request cors sets
  the allow-origin header and passes the request on.
\<close>

definition cors_preflight :: "response \<Rightarrow> response" where
  "cors_preflight res =
     (setHeader ''Content-Length'' ''0''
       (setHeader ''Access-Control-Allow-Headers'' ''Content-Type,User-Agent''
         (setHeader ''Access-Control-Allow-Methods'' ''GET,POST,OPTIONS''
           (setHeader ''Access-Control-Allow-Origin'' ''*'' res))))
     \<lparr>headersSent := True, statusCode := 204\<rparr>"

definition cors :: "response \<Rightarrow> response" where
  "cors res = setHeader ''Access-Control-Allow-Origin'' ''*'' res"

text \<open>
  A handler registered with \<^verbatim>\<open>app.get\<close> is a function of the source run on the request
  (\<open>Local\<close>), the proxy middleware itself (\<open>Proxy\<close>), or, for the stream route of the earlier
  variant, a function that calls the middleware and gives what the call returns to
  \<^verbatim>\<open>req.pipe\<close> (\<open>Piped\<close>).
\<close>

datatype handler =
    Local "world \<Rightarrow> request \<Rightarrow> response \<Rightarrow> exn + outcome"
  | Proxy proxy_options
  | Piped proxy_options

record route =
  route_path :: string
  route_handler :: handler

text \<open>
  The call of the middleware returns a promise, which is no stream: \<^verbatim>\<open>req.pipe\<close> raises a
  \<^verbatim>\<open>TypeError\<close> when it subscribes to its argument. The handler raises at once: the request
  gets no response, and the process ends.
\<close>

fun run_handler :: "handler \<Rightarrow> world \<Rightarrow> request \<Rightarrow> response \<Rightarrow> exn + outcome" where
  "run_handler (Local f) w req res = f w req res"
| "run_handler (Proxy opts) w req res = proxy opts w req res"
| "run_handler (Piped opts) w req res = Inl (TypeError ''dest.on is not a function'')"

text \<open>
  A route of \<^verbatim>\<open>app.get\<close> takes GET, and HEAD as no route is registered for HEAD. Its path
  is compared with the request's pathname as Express does by default: letter case is
  ignored and one trailing \<^verbatim>\<open>/\<close> is optional.
\<close>

definition handles_method :: "http_method \<Rightarrow> bool" where
  "handles_method m = (m = GET \<or> m = HEAD)"

definition route_matches :: "string \<Rightarrow> string \<Rightarrow> bool" where
  "route_matches pat p =
     (let base = toLowerCase (if pat \<noteq> [] \<and> last pat = CHR ''/'' then butlast pat else pat)
      in toLowerCase p = base \<or> toLowerCase p = base @ ''/'')"

definition match_route :: "route list \<Rightarrow> request \<Rightarrow> route option" where
  "match_route routes req =
     (if handles_method (req_method req)
      then find (\<lambda>rt. route_matches (route_path rt) (pathname (req_url req))) routes
      else None)"

text \<open>Node sends no body in answer to a HEAD request.\<close>

definition answer :: "request \<Rightarrow> outcome \<Rightarrow> outcome" where
  "answer req out =
     (if req_method req = HEAD then out\<lparr>reply := (reply out)\<lparr>res_body := Empty\<rparr>\<rparr> else out)"

text \<open>
  One request through the application: cors, then the first matching route; a request
  that no route takes gets the 404 page of Express.
\<close>

definition handle :: "route list \<Rightarrow> world \<Rightarrow> request \<Rightarrow> exn + outcome" where
  "handle routes w req =
     (if req_method req = OPTIONS
      then Inr \<lparr>upstream_calls = [], console = [], reply = cors_preflight fresh_response,
                uncaught = None\<rparr>
      else
        (case match_route routes req of
           None \<Rightarrow>
             Inr (answer req
                   \<lparr>upstream_calls = [], console = [],
                    reply = (cors fresh_response)
                              \<lparr>headersSent := True, statusCode := 404,
                               res_body := Not_found_page\<rparr>,
                    uncaught = None\<rparr>)
         | Some rt \<Rightarrow>
             (case run_handler (route_handler rt) w req (cors fresh_response) of
                Inl e \<Rightarrow> Inl e
              | Inr out \<Rightarrow> Inr (answer req out))))"

text \<open>
  The process takes requests one after the other and keeps no state between them. It ends
  with the first request whose handling raises: \<open>serve\<close> lists what the handling of each
  request did, up to and including that request; the requests after it are not served.
\<close>

fun serve :: "route list \<Rightarrow> world \<Rightarrow> request list \<Rightarrow> (exn + outcome) list" where
  "serve routes w [] = []"
| "serve routes w (req # reqs) =
     (case handle routes w req of
        Inl e \<Rightarrow> [Inl e]
      | Inr out \<Rightarrow>
          (if uncaught out = None then Inr out # serve routes w reqs else [Inr out]))"

section \<open>The two variants\<close>

record config =
  PORT :: string
  ESP_CAR_IP :: string
  ESP_CAM_IP :: string

definition index_js :: config where
  "index_js = \<lparr>PORT = ''3000'', ESP_CAR_IP = ''192.168.4.1'', ESP_CAM_IP = ''192.168.225.143''\<rparr>"

definition part_000 :: config where
  "part_000 = \<lparr>PORT = ''3000'', ESP_CAR_IP = ''192.168.4.1'', ESP_CAM_IP = ''192.168.1.100''\<rparr>"

definition motorCommands :: "string list" where
  "motorCommands = [''forward'', ''backward'', ''left'', ''right'', ''stop'']"

definition valveCommands :: "string list" where
  "valveCommands = [''valve1_on'', ''valve1_off'', ''valve2_on'', ''valve2_off'']"

subsection \<open>Routes that both files write alike\<close>

text \<open>
  \<^verbatim>\<open>app.get('/api/status', (req, res) => res.json({status: 'OK',
  timestamp: new Date().toISOString(), car_ip: ESP_CAR_IP, cam_ip: ESP_CAM_IP}))\<close>
\<close>

definition status_handler :: "config \<Rightarrow> world \<Rightarrow> request \<Rightarrow> response \<Rightarrow> exn + outcome" where
  "status_handler cfg w req res =
     (case res_json [(''status'', ''OK''), (''timestamp'', clock w),
                     (''car_ip'', ESP_CAR_IP cfg), (''cam_ip'', ESP_CAM_IP cfg)] res of
        Inl e \<Rightarrow> Inl e
      | Inr res' \<Rightarrow> Inr \<lparr>upstream_calls = [], console = [], reply = res', uncaught = None\<rparr>)"

definition status_route :: "config \<Rightarrow> route" where
  "status_route cfg = \<lparr>route_path = ''/api/status'', route_handler = Local (status_handler cfg)\<rparr>"

text \<open>\<^verbatim>\<open>(proxyRes) => { proxyRes.headers['Access-Control-Allow-Origin'] = '*'; }\<close>\<close>

definition allow_origin :: "headers \<Rightarrow> headers" where
  "allow_origin hs = js_assign hs ''Access-Control-Allow-Origin'' ''*''"

text \<open>\<^verbatim>\<open>res.status(500).json({ error: `Proxy error for ${name}` })\<close>\<close>

definition json_error :: "string \<Rightarrow> response \<Rightarrow> exn + response" where
  "json_error name res = res_json [(''error'', ''Proxy error for '' @ name)] (res_status 500 res)"

text \<open>A template literal of several lines, given by its lines.\<close>

fun template :: "string list \<Rightarrow> string" where
  "template [] = []"
| "template [l] = l"
| "template (l # ls) = l @ CHR 0x0A # template ls"

text \<open>The options objects of a route table, in the order of the routes.\<close>

fun options_of :: "handler \<Rightarrow> proxy_options list" where
  "options_of (Local f) = []"
| "options_of (Proxy opts) = [opts]"
| "options_of (Piped opts) = [opts]"

definition proxied :: "route list \<Rightarrow> proxy_options list" where
  "proxied routes = concat (map (\<lambda>rt. options_of (route_handler rt)) routes)"

subsection \<open>src/index.js\<close>

definition sensor_options_index :: proxy_options where
  "sensor_options_index =
     \<lparr>target = ''http://'' @ ESP_CAR_IP index_js,
      changeOrigin = True,
      pathRewrite = [(''^/api/sensor'', ''/sensor'')],
      onProxyRes = Some allow_origin,
      onError = Some (\<lambda>err req res.
        ([''Sensor proxy error: '' @ err], json_error ''sensor'' res)),
      timeout = None, proxyTimeout = None\<rparr>"

definition motor_options_index :: "string \<Rightarrow> proxy_options" where
  "motor_options_index command =
     \<lparr>target = ''http://'' @ ESP_CAR_IP index_js,
      changeOrigin = True,
      pathRewrite = [(''^/api/'' @ command, ''/'' @ command)],
      onProxyRes = Some allow_origin,
      onError = Some (\<lambda>err req res.
        ([command @ '' proxy error: '' @ err], json_error command res)),
      timeout = None, proxyTimeout = None\<rparr>"

definition valve_options_index :: "string \<Rightarrow> proxy_options" where
  "valve_options_index command =
     \<lparr>target = ''http://'' @ ESP_CAR_IP index_js,
      changeOrigin = True,
      pathRewrite = [(''^/api/'' @ command, ''/'' @ command)],
      onProxyRes = Some allow_origin,
      onError = Some (\<lambda>err req res.
        ([command @ '' proxy error: '' @ err], json_error command res)),
      timeout = None, proxyTimeout = None\<rparr>"

definition stream_onProxyRes_index :: "headers \<Rightarrow> headers" where
  "stream_onProxyRes_index hs =
     js_assign
       (js_assign
         (js_assign
           (js_assign
             (js_assign hs ''Content-Type''
                ''multipart/x-mixed-replace; boundary=123456789000000000000987654321'')
             ''Access-Control-Allow-Origin'' ''*'')
           ''Cache-Control'' ''no-cache, no-store, must-revalidate'')
         ''Pragma'' ''no-cache'')
       ''Expires'' ''0''"

definition stream_options_index :: proxy_options where
  "stream_options_index =
     \<lparr>target = ''http://'' @ ESP_CAM_IP index_js,
      changeOrigin = True,
      pathRewrite = [(''^/api/stream'', ''/stream'')],
      onProxyRes = Some stream_onProxyRes_index,
      onError = Some (\<lambda>err req res.
        ([''Stream proxy error: '' @ err],
         res_send ''Stream unavailable - Check CAM IP connectivity'' (res_status 500 res))),
      timeout = None, proxyTimeout = None\<rparr>"

definition root_page_index :: string where
  \<open>root_page_index = template
     [[],
      ''    <html>'',
      ''      <head><title>ESP32 Control Backend</title></head>'',
      ''      <body>'',
      ''        <h1>Backend Running on Port '' @ PORT index_js @ ''</h1>'',
      ''        <p>Flutter app should connect to <code>http://YOUR_IP:'' @ PORT index_js
        @ ''/api</code></p>'',
      ''        <p>Car IP: '' @ ESP_CAR_IP index_js @ '' | Cam IP: '' @ ESP_CAM_IP index_js
        @ ''</p>'',
      ''        <h2>Live Stream Test:</h2>'',
      ''        <img src="/api/stream" style="width:100%; max-width:640px; height:auto; border:1px solid #ccc;" alt="Live Feed">'',
      ''        <p>If stream doesn't load, check console for errors and ensure Node can ping ''
        @ ESP_CAM_IP index_js @ ''.</p>'',
      ''      </body>'',
      ''    </html>'',
      ''  '']\<close>

definition root_handler :: "string \<Rightarrow> world \<Rightarrow> request \<Rightarrow> response \<Rightarrow> exn + outcome" where
  "root_handler page w req res =
     (case res_send page res of
        Inl e \<Rightarrow> Inl e
      | Inr res' \<Rightarrow> Inr \<lparr>upstream_calls = [], console = [], reply = res', uncaught = None\<rparr>)"

definition routes_index :: "route list" where
  "routes_index =
     [status_route index_js,
      \<lparr>route_path = ''/api/sensor'', route_handler = Proxy sensor_options_index\<rparr>]
     @ map (\<lambda>command. \<lparr>route_path = ''/api/'' @ command,
                         route_handler = Proxy (motor_options_index command)\<rparr>) motorCommands
     @ map (\<lambda>command. \<lparr>route_path = ''/api/'' @ command,
                         route_handler = Proxy (valve_options_index command)\<rparr>) valveCommands
     @ [\<lparr>route_path = ''/api/stream'', route_handler = Proxy stream_options_index\<rparr>,
        \<lparr>route_path = ''/'', route_handler = Local (root_handler root_page_index)\<rparr>]"

subsection \<open>src/unnamed/part_000\<close>

text \<open>
  The earlier variant logs nothing in the error callbacks of the sensor, motor and valve
  routes, and its sensor route has no \<open>onProxyRes\<close>. Its stream route gives the middleware
  a target with the path \<^verbatim>\<open>/stream\<close>, three header assignments and no \<open>onError\<close>, calls it
  inside the handler and pipes the request into the result. (The function it passes as
  \<^verbatim>\<open>next\<close> would run only if the middleware declined the request, which a middleware made
  without a path filter does not do; it is not embedded.)
\<close>

definition sensor_options_part_000 :: proxy_options where
  "sensor_options_part_000 =
     \<lparr>target = ''http://'' @ ESP_CAR_IP part_000,
      changeOrigin = True,
      pathRewrite = [(''^/api/sensor'', ''/sensor'')],
      onProxyRes = None,
      onError = Some (\<lambda>err req res. ([], json_error ''sensor'' res)),
      timeout = None, proxyTimeout = None\<rparr>"

definition motor_options_part_000 :: "string \<Rightarrow> proxy_options" where
  "motor_options_part_000 command =
     \<lparr>target = ''http://'' @ ESP_CAR_IP part_000,
      changeOrigin = True,
      pathRewrite = [(''^/api/'' @ command, ''/'' @ command)],
      onProxyRes = Some allow_origin,
      onError = Some (\<lambda>err req res. ([], json_error command res)),
      timeout = None, proxyTimeout = None\<rparr>"

definition valve_options_part_000 :: "string \<Rightarrow> proxy_options" where
  "valve_options_part_000 command =
     \<lparr>target = ''http://'' @ ESP_CAR_IP part_000,
      changeOrigin = True,
      pathRewrite = [(''^/api/'' @ command, ''/'' @ command)],
      onProxyRes = Some allow_origin,
      onError = Some (\<lambda>err req res. ([], json_error command res)),
      timeout = None, proxyTimeout = None\<rparr>"

definition stream_onProxyRes_part_000 :: "headers \<Rightarrow> headers" where
  "stream_onProxyRes_part_000 hs =
     js_assign
       (js_assign
         (js_assign hs ''Content-Type''
            ''multipart/x-mixed-replace; boundary=123456789000000000000987654321'')
         ''Access-Control-Allow-Origin'' ''*'')
       ''Cache-Control'' ''no-cache''"

definition stream_options_part_000 :: proxy_options where
  "stream_options_part_000 =
     \<lparr>target = ''http://'' @ ESP_CAM_IP part_000 @ ''/stream'',
      changeOrigin = True,
      pathRewrite = [(''^/api/stream'', ''/stream'')],
      onProxyRes = Some stream_onProxyRes_part_000,
      onError = None,
      timeout = None, proxyTimeout = None\<rparr>"

definition root_page_part_000 :: string where
  \<open>root_page_part_000 = template
     [[],
      ''    <html>'',
      ''      <head><title>ESP32 Control Backend</title></head>'',
      ''      <body>'',
      ''        <h1>Backend Running on Port '' @ PORT part_000 @ ''</h1>'',
      ''        <p>Flutter app should connect to <code>http://YOUR_IP:'' @ PORT part_000
        @ ''/api</code></p>'',
      ''        <p>Car IP: '' @ ESP_CAR_IP part_000 @ '' | Cam IP: '' @ ESP_CAM_IP part_000
        @ ''</p>'',
      ''        <img src="/api/stream" style="width:100%; max-width:640px; height:auto;">'',
      ''      </body>'',
      ''    </html>'',
      ''  '']\<close>

definition routes_part_000 :: "route list" where
  "routes_part_000 =
     [status_route part_000,
      \<lparr>route_path = ''/api/sensor'', route_handler = Proxy sensor_options_part_000\<rparr>]
     @ map (\<lambda>command. \<lparr>route_path = ''/api/'' @ command,
                         route_handler = Proxy (motor_options_part_000 command)\<rparr>) motorCommands
     @ map (\<lambda>command. \<lparr>route_path = ''/api/'' @ command,
                         route_handler = Proxy (valve_options_part_000 command)\<rparr>) valveCommands
     @ [\<lparr>route_path = ''/api/stream'', route_handler = Piped stream_options_part_000\<rparr>,
        \<lparr>route_path = ''/'', route_handler = Local (root_handler root_page_part_000)\<rparr>]"

subsection \<open>Inputs and predicates of the statements\<close>

text \<open>
  Node hands the headers of an upstream response to the callbacks under lower-case names.
\<close>

definition lower_case_keys :: "headers \<Rightarrow> bool" where
  "lower_case_keys hs = (\<forall>k \<in> fst ` set hs. toLowerCase k = k)"

text \<open>An options object bounds both sockets when it sets both timeout options.\<close>

definition timeouts_bounded :: "proxy_options \<Rightarrow> bool" where
  "timeouts_bounded opts = (timeout opts \<noteq> None \<and> proxyTimeout opts \<noteq> None)"

text \<open>The four headers the stream route is to carry, read with \<^verbatim>\<open>res.getHeader\<close>.\<close>

definition stream_headers :: "response \<Rightarrow> bool" where
  "stream_headers res =
     (getHeader res ''Content-Type''
        = Some ''multipart/x-mixed-replace; boundary=123456789000000000000987654321''
      \<and> getHeader res ''Cache-Control'' = Some ''no-cache, no-store, must-revalidate''
      \<and> getHeader res ''Pragma'' = Some ''no-cache''
      \<and> getHeader res ''Expires'' = Some ''0'')"

text \<open>
  Three sample settings: every device refuses the connection; every device answers; every
  device drops the connection after the first chunk of its answer.
\<close>

definition resetting_world :: world where
  "resetting_world =
     \<lparr>upstream = (\<lambda>u. Reset 200 [(''content-type'', ''image/jpeg'')] [''frame1''] ''ECONNRESET''),
      clock = ''2025-01-01T00:00:00.000Z''\<rparr>"

definition unreachable_world :: world where
  "unreachable_world =
     \<lparr>upstream = (\<lambda>u. Unreachable ''ECONNREFUSED''), clock = ''2025-01-01T00:00:00.000Z''\<rparr>"

definition answering_world :: world where
  "answering_world =
     \<lparr>upstream = (\<lambda>u. Responded 200
        [(''content-type'', ''image/jpeg''),
         (''access-control-allow-origin'', ''http://example.org'')]
        [''frame1'', ''frame2'']),
      clock = ''2025-01-01T00:00:00.000Z''\<rparr>"

section \<open>Properties\<close>

subsection \<open>Header objects and responses\<close>

lemma map_of_js_assign: "map_of (js_assign h k v) = (map_of h)(k \<mapsto> v)"
  by (induction h) auto

lemma js_assign_fresh: "k \<notin> fst ` set h \<Longrightarrow> js_assign h k v = h @ [(k, v)]"
  by (induction h) auto

lemma writeHeaders_Nil: "writeHeaders [] r = r"
  by (simp add: writeHeaders_def)

lemma writeHeaders_Cons: "writeHeaders ((k, v) # hs) r = writeHeaders hs (setHeader k v r)"
  by (simp add: writeHeaders_def)

lemma writeHeaders_append: "writeHeaders (hs @ hs') r = writeHeaders hs' (writeHeaders hs r)"
  by (simp add: writeHeaders_def)

lemma setHeader_fields:
  "headersSent (setHeader k v r) = headersSent r"
  "statusCode (setHeader k v r) = statusCode r"
  "res_body (setHeader k v r) = res_body r"
  by (simp_all add: setHeader_def)

lemma writeHeaders_headersSent: "headersSent (writeHeaders hs r) = headersSent r"
  unfolding writeHeaders_def
  by (induction hs arbitrary: r) (simp_all add: setHeader_def split: prod.splits)

lemma writeHeaders_statusCode: "statusCode (writeHeaders hs r) = statusCode r"
  unfolding writeHeaders_def
  by (induction hs arbitrary: r) (simp_all add: setHeader_def split: prod.splits)

lemma writeHeaders_res_body: "res_body (writeHeaders hs r) = res_body r"
  unfolding writeHeaders_def
  by (induction hs arbitrary: r) (simp_all add: setHeader_def split: prod.splits)

lemma getHeader_setHeader:
  "getHeader (setHeader k v r) k' =
     (if toLowerCase k' = toLowerCase k then Some v else getHeader r k')"
  by (simp add: getHeader_def setHeader_def map_of_js_assign)

lemma getHeader_update:
  "getHeader (r\<lparr>headersSent := a, statusCode := b, res_body := c\<rparr>) k = getHeader r k"
  by (simp add: getHeader_def)

subsection \<open>The proxy middleware\<close>

lemma proxy_Responded:
  assumes "upstream w (setupOutgoing opts (req\<lparr>req_url := rewritePath (pathRewrite opts) (req_url req)\<rparr>))
             = Responded st hs chunks"
  shows "proxy opts w req res =
     Inr \<lparr>upstream_calls = [setupOutgoing opts (req\<lparr>req_url := rewritePath (pathRewrite opts) (req_url req)\<rparr>)],
          console = [],
          reply = (writeHeaders (case onProxyRes opts of Some f \<Rightarrow> f hs | None \<Rightarrow> hs) res)
                     \<lparr>headersSent := True, statusCode := st, res_body := Chunks chunks\<rparr>,
          uncaught = None\<rparr>"
  using assms by (simp add: proxy_def Let_def relayed_def)

lemma proxy_Unreachable:
  assumes "upstream w (setupOutgoing opts (req\<lparr>req_url := rewritePath (pathRewrite opts) (req_url req)\<rparr>))
             = Unreachable err"
    and "onError opts = Some h"
    and "h err (req\<lparr>req_url := rewritePath (pathRewrite opts) (req_url req)\<rparr>) res = (lines, Inr res')"
  shows "proxy opts w req res =
     Inr \<lparr>upstream_calls = [setupOutgoing opts (req\<lparr>req_url := rewritePath (pathRewrite opts) (req_url req)\<rparr>)],
          console = lines, reply = res', uncaught = None\<rparr>"
  using assms by (simp add: proxy_def Let_def failed_def)

lemma proxy_Reset_raises:
  assumes "upstream w (setupOutgoing opts (req\<lparr>req_url := rewritePath (pathRewrite opts) (req_url req)\<rparr>))
             = Reset st hs chunks err"
    and "onError opts = Some h"
    and "h err (req\<lparr>req_url := rewritePath (pathRewrite opts) (req_url req)\<rparr>)
           (relayed opts st hs chunks res) = (lines, Inl e)"
  shows "proxy opts w req res =
     Inr \<lparr>upstream_calls = [setupOutgoing opts (req\<lparr>req_url := rewritePath (pathRewrite opts) (req_url req)\<rparr>)],
          console = lines, reply = relayed opts st hs chunks res, uncaught = Some e\<rparr>"
  using assms by (simp add: proxy_def Let_def failed_def)

lemma proxy_calls:
  "proxy opts w req res = Inr out \<Longrightarrow>
   upstream_calls out = [setupOutgoing opts (req\<lparr>req_url := rewritePath (pathRewrite opts) (req_url req)\<rparr>)]"
  by (auto simp: proxy_def Let_def failed_def split: upstream_outcome.splits prod.splits sum.splits)

lemma proxy_total: "\<exists>out. proxy opts w req res = Inr out"
  by (simp add: proxy_def Let_def)

lemma json_error_sent: "headersSent res \<Longrightarrow> json_error name res = Inl ERR_HTTP_HEADERS_SENT"
  by (simp add: json_error_def res_json_def res_status_def)

lemma relayed_sent: "headersSent (relayed opts st hs chunks res)"
  by (simp add: relayed_def)

lemma json_error_unsent:
  "\<not> headersSent res \<Longrightarrow>
   json_error name res = Inr (res\<lparr>headersSent := True, statusCode := 500,
                                   res_body := Json [(''error'', ''Proxy error for '' @ name)]\<rparr>)"
  by (simp add: json_error_def res_json_def res_status_def)

lemma cors_fresh_unsent: "\<not> headersSent (cors fresh_response)"
  by (simp add: cors_def fresh_response_def setHeader_def)

subsection \<open>The route tables, written out\<close>

lemma valve_options_index_eq: "valve_options_index = motor_options_index"
  by (rule ext) (simp add: valve_options_index_def motor_options_index_def)

lemma valve_options_part_000_eq: "valve_options_part_000 = motor_options_part_000"
  by (rule ext) (simp add: valve_options_part_000_def motor_options_part_000_def)

lemma routes_index_list:
  "routes_index =
     [status_route index_js,
      \<lparr>route_path = ''/api/sensor'', route_handler = Proxy sensor_options_index\<rparr>,
      \<lparr>route_path = ''/api/forward'', route_handler = Proxy (motor_options_index ''forward'')\<rparr>,
      \<lparr>route_path = ''/api/backward'', route_handler = Proxy (motor_options_index ''backward'')\<rparr>,
      \<lparr>route_path = ''/api/left'', route_handler = Proxy (motor_options_index ''left'')\<rparr>,
      \<lparr>route_path = ''/api/right'', route_handler = Proxy (motor_options_index ''right'')\<rparr>,
      \<lparr>route_path = ''/api/stop'', route_handler = Proxy (motor_options_index ''stop'')\<rparr>,
      \<lparr>route_path = ''/api/valve1_on'', route_handler = Proxy (motor_options_index ''valve1_on'')\<rparr>,
      \<lparr>route_path = ''/api/valve1_off'', route_handler = Proxy (motor_options_index ''valve1_off'')\<rparr>,
      \<lparr>route_path = ''/api/valve2_on'', route_handler = Proxy (motor_options_index ''valve2_on'')\<rparr>,
      \<lparr>route_path = ''/api/valve2_off'', route_handler = Proxy (motor_options_index ''valve2_off'')\<rparr>,
      \<lparr>route_path = ''/api/stream'', route_handler = Proxy stream_options_index\<rparr>,
      \<lparr>route_path = ''/'', route_handler = Local (root_handler root_page_index)\<rparr>]"
  by (simp add: routes_index_def motorCommands_def valveCommands_def valve_options_index_eq)

lemma routes_part_000_list:
  "routes_part_000 =
     [status_route part_000,
      \<lparr>route_path = ''/api/sensor'', route_handler = Proxy sensor_options_part_000\<rparr>,
      \<lparr>route_path = ''/api/forward'', route_handler = Proxy (motor_options_part_000 ''forward'')\<rparr>,
      \<lparr>route_path = ''/api/backward'', route_handler = Proxy (motor_options_part_000 ''backward'')\<rparr>,
      \<lparr>route_path = ''/api/left'', route_handler = Proxy (motor_options_part_000 ''left'')\<rparr>,
      \<lparr>route_path = ''/api/right'', route_handler = Proxy (motor_options_part_000 ''right'')\<rparr>,
      \<lparr>route_path = ''/api/stop'', route_handler = Proxy (motor_options_part_000 ''stop'')\<rparr>,
      \<lparr>route_path = ''/api/valve1_on'', route_handler = Proxy (motor_options_part_000 ''valve1_on'')\<rparr>,
      \<lparr>route_path = ''/api/valve1_off'', route_handler = Proxy (motor_options_part_000 ''valve1_off'')\<rparr>,
      \<lparr>route_path = ''/api/valve2_on'', route_handler = Proxy (motor_options_part_000 ''valve2_on'')\<rparr>,
      \<lparr>route_path = ''/api/valve2_off'', route_handler = Proxy (motor_options_part_000 ''valve2_off'')\<rparr>,
      \<lparr>route_path = ''/api/stream'', route_handler = Piped stream_options_part_000\<rparr>,
      \<lparr>route_path = ''/'', route_handler = Local (root_handler root_page_part_000)\<rparr>]"
  by (simp add: routes_part_000_def motorCommands_def valveCommands_def valve_options_part_000_eq)

lemma commands_cases:
  assumes "cmd \<in> set (motorCommands @ valveCommands)"
  shows "cmd = ''forward'' \<or> cmd = ''backward'' \<or> cmd = ''left'' \<or> cmd = ''right'' \<or> cmd = ''stop''
       \<or> cmd = ''valve1_on'' \<or> cmd = ''valve1_off'' \<or> cmd = ''valve2_on'' \<or> cmd = ''valve2_off''"
  using assms by (simp add: motorCommands_def valveCommands_def)

lemma query_split:
  assumes "qs = [] \<or> hd qs = CHR ''?''"
  shows "takeWhile (\<lambda>c. c \<noteq> CHR ''?'') qs = []" "dropWhile (\<lambda>c. c \<noteq> CHR ''?'') qs = qs"
  using assms by (cases qs; auto)+

lemma match_route_Some:
  assumes "match_route routes req = Some rt"
  shows "rt \<in> set routes" "handles_method (req_method req)"
    "route_matches (route_path rt) (pathname (req_url req))"
  using assms by (auto simp: match_route_def find_Some_iff split: if_splits)

lemma handle_matched:
  assumes "req_method req = GET" and "match_route routes req = Some rt"
    and "run_handler (route_handler rt) w req (cors fresh_response) = Inr out"
  shows "handle routes w req = Inr out"
  using assms by (simp add: handle_def answer_def)

lemma match_command_index:
  assumes "cmd \<in> set (motorCommands @ valveCommands)" and "qs = [] \<or> hd qs = CHR ''?''"
  shows "match_route routes_index \<lparr>req_method = GET, req_url = ''/api/'' @ cmd @ qs, req_headers = hs\<rparr>
         = Some \<lparr>route_path = ''/api/'' @ cmd, route_handler = Proxy (motor_options_index cmd)\<rparr>"
  using commands_cases[OF assms(1)] query_split[OF assms(2)]
  apply (elim disjE)
  apply (simp_all add: routes_index_list match_route_def handles_method_def route_matches_def
      toLowerCase_def lower_char_def pathname_def status_route_def)
  done

lemma match_command_part_000:
  assumes "cmd \<in> set (motorCommands @ valveCommands)" and "qs = [] \<or> hd qs = CHR ''?''"
  shows "match_route routes_part_000 \<lparr>req_method = GET, req_url = ''/api/'' @ cmd @ qs, req_headers = hs\<rparr>
         = Some \<lparr>route_path = ''/api/'' @ cmd, route_handler = Proxy (motor_options_part_000 cmd)\<rparr>"
  using commands_cases[OF assms(1)] query_split[OF assms(2)]
  apply (elim disjE)
  apply (simp_all add: routes_part_000_list match_route_def handles_method_def route_matches_def
      toLowerCase_def lower_char_def pathname_def status_route_def)
  done

lemma outgoing_command_index:
  assumes "cmd \<in> set (motorCommands @ valveCommands)" and "qs = [] \<or> hd qs = CHR ''?''"
  shows "setupOutgoing (motor_options_index cmd)
           (\<lparr>req_method = m, req_url = ''/api/'' @ cmd @ qs, req_headers = hs\<rparr>
              \<lparr>req_url := rewritePath (pathRewrite (motor_options_index cmd)) (''/api/'' @ cmd @ qs)\<rparr>)
         = \<lparr>up_host = ESP_CAR_IP index_js, up_method = m, up_path = ''/'' @ cmd @ qs,
            up_headers = js_assign hs ''host'' (ESP_CAR_IP index_js)\<rparr>"
  using commands_cases[OF assms(1)] query_split[OF assms(2)]
  apply (elim disjE)
  apply (simp_all add: motor_options_index_def setupOutgoing_def regex_test_def urlJoin_def
      url_host_def url_path_def url_rest_def index_js_def pathname_def search_def)
  done

lemma outgoing_command_part_000:
  assumes "cmd \<in> set (motorCommands @ valveCommands)" and "qs = [] \<or> hd qs = CHR ''?''"
  shows "setupOutgoing (motor_options_part_000 cmd)
           (\<lparr>req_method = m, req_url = ''/api/'' @ cmd @ qs, req_headers = hs\<rparr>
              \<lparr>req_url := rewritePath (pathRewrite (motor_options_part_000 cmd)) (''/api/'' @ cmd @ qs)\<rparr>)
         = \<lparr>up_host = ESP_CAR_IP part_000, up_method = m, up_path = ''/'' @ cmd @ qs,
            up_headers = js_assign hs ''host'' (ESP_CAR_IP part_000)\<rparr>"
  using commands_cases[OF assms(1)] query_split[OF assms(2)]
  apply (elim disjE)
  apply (simp_all add: motor_options_part_000_def setupOutgoing_def regex_test_def urlJoin_def
      url_host_def url_path_def url_rest_def part_000_def pathname_def search_def)
  done

lemma motor_index_total:
  "\<exists>out. proxy (motor_options_index cmd) w req (cors fresh_response) = Inr out"
  by (rule proxy_total)

lemma motor_part_000_total:
  "\<exists>out. proxy (motor_options_part_000 cmd) w req (cors fresh_response) = Inr out"
  by (rule proxy_total)

subsection \<open>Command routes\<close>

text \<open>
  C1. In both variants, a GET request to \<^verbatim>\<open>/api/R\<close> for a motor or valve command \<open>R\<close>, with or
  without a query, is answered after exactly one upstream request: to the controller, with
  the method GET, the path \<^verbatim>\<open>/R\<close> and the query of the inbound request.
\<close>

theorem command_forwarded_once:
  assumes "cmd \<in> set (motorCommands @ valveCommands)" and "qs = [] \<or> hd qs = CHR ''?''"
  shows "(\<exists>out. handle routes_index w
                  \<lparr>req_method = GET, req_url = ''/api/'' @ cmd @ qs, req_headers = hs\<rparr> = Inr out
              \<and> upstream_calls out =
                  [\<lparr>up_host = ESP_CAR_IP index_js, up_method = GET, up_path = ''/'' @ cmd @ qs,
                    up_headers = js_assign hs ''host'' (ESP_CAR_IP index_js)\<rparr>])
       \<and> (\<exists>out. handle routes_part_000 w
                  \<lparr>req_method = GET, req_url = ''/api/'' @ cmd @ qs, req_headers = hs\<rparr> = Inr out
              \<and> upstream_calls out =
                  [\<lparr>up_host = ESP_CAR_IP part_000, up_method = GET, up_path = ''/'' @ cmd @ qs,
                    up_headers = js_assign hs ''host'' (ESP_CAR_IP part_000)\<rparr>])"
proof
  let ?req = "\<lparr>req_method = GET, req_url = ''/api/'' @ cmd @ qs, req_headers = hs\<rparr>"
  obtain out where out: "proxy (motor_options_index cmd) w ?req (cors fresh_response) = Inr out"
    using motor_index_total by blast
  have "handle routes_index w ?req = Inr out"
    using handle_matched[OF _ match_command_index[OF assms]] out by simp
  moreover have "upstream_calls out =
      [\<lparr>up_host = ESP_CAR_IP index_js, up_method = GET, up_path = ''/'' @ cmd @ qs,
        up_headers = js_assign hs ''host'' (ESP_CAR_IP index_js)\<rparr>]"
    using proxy_calls[OF out] outgoing_command_index[OF assms] by simp
  ultimately show "\<exists>out. handle routes_index w ?req = Inr out
              \<and> upstream_calls out =
                  [\<lparr>up_host = ESP_CAR_IP index_js, up_method = GET, up_path = ''/'' @ cmd @ qs,
                    up_headers = js_assign hs ''host'' (ESP_CAR_IP index_js)\<rparr>]"
    by blast
next
  let ?req = "\<lparr>req_method = GET, req_url = ''/api/'' @ cmd @ qs, req_headers = hs\<rparr>"
  obtain out where out: "proxy (motor_options_part_000 cmd) w ?req (cors fresh_response) = Inr out"
    using motor_part_000_total by blast
  have "handle routes_part_000 w ?req = Inr out"
    using handle_matched[OF _ match_command_part_000[OF assms]] out by simp
  moreover have "upstream_calls out =
      [\<lparr>up_host = ESP_CAR_IP part_000, up_method = GET, up_path = ''/'' @ cmd @ qs,
        up_headers = js_assign hs ''host'' (ESP_CAR_IP part_000)\<rparr>]"
    using proxy_calls[OF out] outgoing_command_part_000[OF assms] by simp
  ultimately show "\<exists>out. handle routes_part_000 w ?req = Inr out
              \<and> upstream_calls out =
                  [\<lparr>up_host = ESP_CAR_IP part_000, up_method = GET, up_path = ''/'' @ cmd @ qs,
                    up_headers = js_assign hs ''host'' (ESP_CAR_IP part_000)\<rparr>]"
    by blast
qed

theorem command_forwarded_once_witness:
  "(\<exists>out. handle routes_index unreachable_world
                  \<lparr>req_method = GET, req_url = ''/api/left?speed=3'',
                   req_headers = [(''host'', ''laptop:3000'')]\<rparr> = Inr out
              \<and> upstream_calls out =
                  [\<lparr>up_host = ''192.168.4.1'', up_method = GET, up_path = ''/left?speed=3'',
                    up_headers = [(''host'', ''192.168.4.1'')]\<rparr>])
   \<and> (\<exists>out. handle routes_part_000 answering_world
                  \<lparr>req_method = GET, req_url = ''/api/valve2_off'',
                   req_headers = []\<rparr> = Inr out
              \<and> upstream_calls out =
                  [\<lparr>up_host = ''192.168.4.1'', up_method = GET, up_path = ''/valve2_off'',
                    up_headers = [(''host'', ''192.168.4.1'')]\<rparr>])"
  using command_forwarded_once[of "''left''" "''?speed=3''" unreachable_world "[(''host'', ''laptop:3000'')]"]
        command_forwarded_once[of "''valve2_off''" "[]" answering_world "[]"]
  by (simp add: motorCommands_def valveCommands_def index_js_def part_000_def)

lemma js_assign_append_fresh:
  "k \<notin> fst ` set h \<Longrightarrow> js_assign (h @ t) k v = h @ js_assign t k v"
  by (induction h) auto

lemma upper_case_not_key:
  "lower_case_keys hs \<Longrightarrow> toLowerCase k \<noteq> k \<Longrightarrow> k \<notin> fst ` set hs"
  by (auto simp: lower_case_keys_def)

lemma allow_origin_append:
  assumes "lower_case_keys hs"
  shows "allow_origin hs = hs @ [(''Access-Control-Allow-Origin'', ''*'')]"
proof -
  have "toLowerCase ''Access-Control-Allow-Origin'' \<noteq> ''Access-Control-Allow-Origin''"
    by (simp add: toLowerCase_def lower_char_def)
  then show ?thesis
    using upper_case_not_key[OF assms] by (simp add: allow_origin_def js_assign_fresh)
qed

lemma allow_origin_written:
  assumes "lower_case_keys hs"
  shows "getHeader (writeHeaders (allow_origin hs) r) ''Access-Control-Allow-Origin'' = Some ''*''"
  by (simp add: allow_origin_append[OF assms] writeHeaders_append writeHeaders_Cons
      writeHeaders_Nil getHeader_setHeader)

lemma relayed_command:
  assumes "lower_case_keys hs" and "onProxyRes opts = Some allow_origin"
    and "upstream w (setupOutgoing opts (req\<lparr>req_url := rewritePath (pathRewrite opts) (req_url req)\<rparr>))
           = Responded st hs chunks"
  shows "\<exists>out. proxy opts w req res = Inr out \<and> statusCode (reply out) = st
           \<and> res_body (reply out) = Chunks chunks
           \<and> getHeader (reply out) ''Access-Control-Allow-Origin'' = Some ''*''"
  using proxy_Responded[OF assms(3), of res] allow_origin_written[OF assms(1)]
  by (simp add: assms(2) getHeader_update)

text \<open>
  C5. In both variants, when the controller answers the upstream request of a command route
  with a status, headers and body chunks, the client gets that status and those chunks,
  and \<^verbatim>\<open>Access-Control-Allow-Origin\<close> is \<^verbatim>\<open>*\<close> on the response whatever the controller's
  headers were (Node lists them under lower-case names).
\<close>

theorem command_response_relayed:
  assumes "cmd \<in> set (motorCommands @ valveCommands)" and "qs = [] \<or> hd qs = CHR ''?''"
    and "lower_case_keys hs"
    and "upstream w \<lparr>up_host = ''192.168.4.1'', up_method = GET, up_path = ''/'' @ cmd @ qs,
                      up_headers = js_assign rh ''host'' ''192.168.4.1''\<rparr>
           = Responded st hs chunks"
  shows "(\<exists>out. handle routes_index w
                  \<lparr>req_method = GET, req_url = ''/api/'' @ cmd @ qs, req_headers = rh\<rparr> = Inr out
              \<and> statusCode (reply out) = st \<and> res_body (reply out) = Chunks chunks
              \<and> getHeader (reply out) ''Access-Control-Allow-Origin'' = Some ''*'')
       \<and> (\<exists>out. handle routes_part_000 w
                  \<lparr>req_method = GET, req_url = ''/api/'' @ cmd @ qs, req_headers = rh\<rparr> = Inr out
              \<and> statusCode (reply out) = st \<and> res_body (reply out) = Chunks chunks
              \<and> getHeader (reply out) ''Access-Control-Allow-Origin'' = Some ''*'')"
proof
  let ?req = "\<lparr>req_method = GET, req_url = ''/api/'' @ cmd @ qs, req_headers = rh\<rparr>"
  have up: "upstream w (setupOutgoing (motor_options_index cmd)
              (?req\<lparr>req_url := rewritePath (pathRewrite (motor_options_index cmd)) (req_url ?req)\<rparr>))
            = Responded st hs chunks"
    using outgoing_command_index[OF assms(1,2), of GET rh] assms(4) by (simp add: index_js_def)
  obtain out where "proxy (motor_options_index cmd) w ?req (cors fresh_response) = Inr out"
    and "statusCode (reply out) = st" and "res_body (reply out) = Chunks chunks"
    and "getHeader (reply out) ''Access-Control-Allow-Origin'' = Some ''*''"
    using relayed_command[OF assms(3) _ up] by (auto simp: motor_options_index_def)
  then show "\<exists>out. handle routes_index w ?req = Inr out
              \<and> statusCode (reply out) = st \<and> res_body (reply out) = Chunks chunks
              \<and> getHeader (reply out) ''Access-Control-Allow-Origin'' = Some ''*''"
    using handle_matched[where req = ?req and w = w and out = out,
        OF _ match_command_index[OF assms(1,2)]] by simp
next
  let ?req = "\<lparr>req_method = GET, req_url = ''/api/'' @ cmd @ qs, req_headers = rh\<rparr>"
  have up: "upstream w (setupOutgoing (motor_options_part_000 cmd)
              (?req\<lparr>req_url := rewritePath (pathRewrite (motor_options_part_000 cmd)) (req_url ?req)\<rparr>))
            = Responded st hs chunks"
    using outgoing_command_part_000[OF assms(1,2), of GET rh] assms(4) by (simp add: part_000_def)
  obtain out where "proxy (motor_options_part_000 cmd) w ?req (cors fresh_response) = Inr out"
    and "statusCode (reply out) = st" and "res_body (reply out) = Chunks chunks"
    and "getHeader (reply out) ''Access-Control-Allow-Origin'' = Some ''*''"
    using relayed_command[OF assms(3) _ up] by (auto simp: motor_options_part_000_def)
  then show "\<exists>out. handle routes_part_000 w ?req = Inr out
              \<and> statusCode (reply out) = st \<and> res_body (reply out) = Chunks chunks
              \<and> getHeader (reply out) ''Access-Control-Allow-Origin'' = Some ''*''"
    using handle_matched[where req = ?req and w = w and out = out,
        OF _ match_command_part_000[OF assms(1,2)]] by simp
qed

theorem command_response_relayed_witness:
  "(\<exists>out. handle routes_index answering_world
                  \<lparr>req_method = GET, req_url = ''/api/forward?speed=3'', req_headers = []\<rparr> = Inr out
              \<and> statusCode (reply out) = 200 \<and> res_body (reply out) = Chunks [''frame1'', ''frame2'']
              \<and> getHeader (reply out) ''Access-Control-Allow-Origin'' = Some ''*'')
   \<and> (\<exists>out. handle routes_part_000 answering_world
                  \<lparr>req_method = GET, req_url = ''/api/forward?speed=3'', req_headers = []\<rparr> = Inr out
              \<and> statusCode (reply out) = 200 \<and> res_body (reply out) = Chunks [''frame1'', ''frame2'']
              \<and> getHeader (reply out) ''Access-Control-Allow-Origin'' = Some ''*'')"
  using command_response_relayed[of "''forward''" "''?speed=3''"
      "[(''content-type'', ''image/jpeg''), (''access-control-allow-origin'', ''http://example.org'')]"
      answering_world "[]" 200 "[''frame1'', ''frame2'']"]
  by (simp add: motorCommands_def valveCommands_def answering_world_def lower_case_keys_def
      toLowerCase_def lower_char_def)

subsection \<open>The status route\<close>

lemma match_status:
  assumes "req_method req = GET" and "pathname (req_url req) = ''/api/status''"
  shows "match_route routes_index req = Some (status_route index_js)"
    and "match_route routes_part_000 req = Some (status_route part_000)"
  using assms
  by (simp_all add: routes_index_list routes_part_000_list match_route_def handles_method_def
      route_matches_def toLowerCase_def lower_char_def status_route_def)

lemma status_handler_fresh:
  "status_handler cfg w req (cors fresh_response) =
     Inr \<lparr>upstream_calls = [], console = [],
          reply = \<lparr>headersSent = True, statusCode = 200,
                   res_headers = [(''x-powered-by'', ''Express''),
                                  (''access-control-allow-origin'', ''*'')],
                   res_body = Json [(''status'', ''OK''), (''timestamp'', clock w),
                                    (''car_ip'', ESP_CAR_IP cfg), (''cam_ip'', ESP_CAM_IP cfg)]\<rparr>,
          uncaught = None\<rparr>"
  by (simp add: status_handler_def res_json_def cors_def setHeader_def fresh_response_def
      toLowerCase_def lower_char_def)

text \<open>
  C6. In both variants a GET request to \<^verbatim>\<open>/api/status\<close> is answered with status 200 and the
  JSON object of \<open>status: OK\<close>, the time and the two configured addresses; no upstream request
  is issued, nothing is logged, nothing is raised, and the answer does not depend on what
  the devices do.
\<close>

theorem status_always_ok:
  assumes "req_method req = GET" and "pathname (req_url req) = ''/api/status''"
  shows "handle routes_index w req =
           Inr \<lparr>upstream_calls = [], console = [],
                reply = \<lparr>headersSent = True, statusCode = 200,
                         res_headers = [(''x-powered-by'', ''Express''),
                                        (''access-control-allow-origin'', ''*'')],
                         res_body = Json [(''status'', ''OK''), (''timestamp'', clock w),
                                          (''car_ip'', ESP_CAR_IP index_js),
                                          (''cam_ip'', ESP_CAM_IP index_js)]\<rparr>,
                uncaught = None\<rparr>
       \<and> handle routes_part_000 w req =
           Inr \<lparr>upstream_calls = [], console = [],
                reply = \<lparr>headersSent = True, statusCode = 200,
                         res_headers = [(''x-powered-by'', ''Express''),
                                        (''access-control-allow-origin'', ''*'')],
                         res_body = Json [(''status'', ''OK''), (''timestamp'', clock w),
                                          (''car_ip'', ESP_CAR_IP part_000),
                                          (''cam_ip'', ESP_CAM_IP part_000)]\<rparr>,
                uncaught = None\<rparr>"
  using handle_matched[where w = w, OF assms(1) match_status(1)[OF assms]]
        handle_matched[where w = w, OF assms(1) match_status(2)[OF assms]]
  by (simp add: status_route_def status_handler_fresh)

theorem status_always_ok_witness:
  "handle routes_index unreachable_world
       \<lparr>req_method = GET, req_url = ''/api/status?probe=1'', req_headers = []\<rparr> =
     Inr \<lparr>upstream_calls = [], console = [],
          reply = \<lparr>headersSent = True, statusCode = 200,
                   res_headers = [(''x-powered-by'', ''Express''),
                                  (''access-control-allow-origin'', ''*'')],
                   res_body = Json [(''status'', ''OK''), (''timestamp'', ''2025-01-01T00:00:00.000Z''),
                                    (''car_ip'', ''192.168.4.1''),
                                    (''cam_ip'', ''192.168.225.143'')]\<rparr>,
          uncaught = None\<rparr>
   \<and> handle routes_part_000 unreachable_world
       \<lparr>req_method = GET, req_url = ''/api/status?probe=1'', req_headers = []\<rparr> =
     Inr \<lparr>upstream_calls = [], console = [],
          reply = \<lparr>headersSent = True, statusCode = 200,
                   res_headers = [(''x-powered-by'', ''Express''),
                                  (''access-control-allow-origin'', ''*'')],
                   res_body = Json [(''status'', ''OK''), (''timestamp'', ''2025-01-01T00:00:00.000Z''),
                                    (''car_ip'', ''192.168.4.1''),
                                    (''cam_ip'', ''192.168.1.100'')]\<rparr>,
          uncaught = None\<rparr>"
  using status_always_ok[of "\<lparr>req_method = GET, req_url = ''/api/status?probe=1'', req_headers = []\<rparr>"
      unreachable_world]
  by (simp add: pathname_def unreachable_world_def index_js_def part_000_def)

subsection \<open>Unreachable devices\<close>

lemma match_sensor_index:
  assumes "qs = [] \<or> hd qs = CHR ''?''"
  shows "match_route routes_index \<lparr>req_method = GET, req_url = ''/api/sensor'' @ qs, req_headers = hs\<rparr>
         = Some \<lparr>route_path = ''/api/sensor'', route_handler = Proxy sensor_options_index\<rparr>"
  using query_split[OF assms]
  by (simp add: routes_index_list match_route_def handles_method_def route_matches_def
      toLowerCase_def lower_char_def pathname_def status_route_def)

lemma match_stream_index:
  assumes "qs = [] \<or> hd qs = CHR ''?''"
  shows "match_route routes_index \<lparr>req_method = GET, req_url = ''/api/stream'' @ qs, req_headers = hs\<rparr>
         = Some \<lparr>route_path = ''/api/stream'', route_handler = Proxy stream_options_index\<rparr>"
  using query_split[OF assms]
  by (simp add: routes_index_list match_route_def handles_method_def route_matches_def
      toLowerCase_def lower_char_def pathname_def status_route_def)

lemma outgoing_sensor_index:
  assumes "qs = [] \<or> hd qs = CHR ''?''"
  shows "setupOutgoing sensor_options_index
           (\<lparr>req_method = m, req_url = ''/api/sensor'' @ qs, req_headers = hs\<rparr>
              \<lparr>req_url := rewritePath (pathRewrite sensor_options_index) (''/api/sensor'' @ qs)\<rparr>)
         = \<lparr>up_host = ESP_CAR_IP index_js, up_method = m, up_path = ''/sensor'' @ qs,
            up_headers = js_assign hs ''host'' (ESP_CAR_IP index_js)\<rparr>"
  using query_split[OF assms]
  by (simp add: sensor_options_index_def setupOutgoing_def regex_test_def urlJoin_def
      url_host_def url_path_def url_rest_def index_js_def pathname_def search_def)

lemma outgoing_stream_index:
  assumes "qs = [] \<or> hd qs = CHR ''?''"
  shows "setupOutgoing stream_options_index
           (\<lparr>req_method = m, req_url = ''/api/stream'' @ qs, req_headers = hs\<rparr>
              \<lparr>req_url := rewritePath (pathRewrite stream_options_index) (''/api/stream'' @ qs)\<rparr>)
         = \<lparr>up_host = ESP_CAM_IP index_js, up_method = m, up_path = ''/stream'' @ qs,
            up_headers = js_assign hs ''host'' (ESP_CAM_IP index_js)\<rparr>"
  using query_split[OF assms]
  by (simp add: stream_options_index_def setupOutgoing_def regex_test_def urlJoin_def
      url_host_def url_path_def url_rest_def index_js_def pathname_def search_def)

lemma res_send_unsent:
  "\<not> headersSent res \<Longrightarrow>
   res_send text (res_status n res) =
     Inr (res\<lparr>headersSent := True, statusCode := n, res_body := Text text\<rparr>)"
  by (simp add: res_send_def res_status_def)

lemma sensor_index_total:
  "\<exists>out. proxy sensor_options_index w req (cors fresh_response) = Inr out"
  by (rule proxy_total)

lemma stream_index_total:
  "\<exists>out. proxy stream_options_index w req (cors fresh_response) = Inr out"
  by (rule proxy_total)

lemma local_index_total:
  "\<exists>out. status_handler cfg w req (cors fresh_response) = Inr out"
  "\<exists>out. root_handler page w req (cors fresh_response) = Inr out"
  using cors_fresh_unsent
  by (simp_all add: status_handler_def root_handler_def res_json_def res_send_def)

lemma handle_index_total: "\<exists>out. handle routes_index w req = Inr out"
proof (cases "req_method req = OPTIONS")
  case True
  then show ?thesis by (simp add: handle_def)
next
  case False
  show ?thesis
  proof (cases "match_route routes_index req")
    case None
    with False show ?thesis by (simp add: handle_def)
  next
    case (Some rt)
    have "rt \<in> set routes_index" using match_route_Some(1)[OF Some] .
    then have "\<exists>out. run_handler (route_handler rt) w req (cors fresh_response) = Inr out"
      unfolding routes_index_list
      using motor_index_total sensor_index_total stream_index_total local_index_total
      by (auto simp: status_route_def)
    with False Some show ?thesis by (auto simp: handle_def)
  qed
qed

lemma serve_continues:
  assumes "handle routes w req = Inr out" and "uncaught out = None"
  shows "serve routes w (req # reqs) = Inr out # serve routes w reqs"
  using assms by simp

text \<open>
  C3. In \<^verbatim>\<open>src/index.js\<close>: when every connection to the controller fails, a GET request to
  the sensor route or to a command route is answered with status 500 and the JSON object
  \<open>{error: Proxy error for <name>}\<close>; when every connection to the camera fails, a GET
  request to \<^verbatim>\<open>/api/stream\<close> is answered with status 500 and a text body. In both cases
  nothing is raised, and the process goes on: a run that begins with such a request gives
  this answer and then serves the requests that follow, as it serves them in a run of
  their own.
\<close>

theorem unreachable_upstream_gives_500:
  assumes "qs = [] \<or> hd qs = CHR ''?''"
  shows "(name \<in> set (''sensor'' # motorCommands @ valveCommands) \<longrightarrow>
            (\<forall>u. up_host u = ESP_CAR_IP index_js \<longrightarrow> (\<exists>err. upstream w u = Unreachable err)) \<longrightarrow>
            (\<exists>out. handle routes_index w
                      \<lparr>req_method = GET, req_url = ''/api/'' @ name @ qs, req_headers = hs\<rparr> = Inr out
                  \<and> statusCode (reply out) = 500
                  \<and> res_body (reply out) = Json [(''error'', ''Proxy error for '' @ name)]
                  \<and> uncaught out = None
                  \<and> (\<forall>reqs. serve routes_index w
                         (\<lparr>req_method = GET, req_url = ''/api/'' @ name @ qs, req_headers = hs\<rparr> # reqs)
                       = Inr out # serve routes_index w reqs)))
       \<and> ((\<forall>u. up_host u = ESP_CAM_IP index_js \<longrightarrow> (\<exists>err. upstream w u = Unreachable err)) \<longrightarrow>
            (\<exists>out. handle routes_index w
                      \<lparr>req_method = GET, req_url = ''/api/stream'' @ qs, req_headers = hs\<rparr> = Inr out
                  \<and> statusCode (reply out) = 500
                  \<and> res_body (reply out) = Text ''Stream unavailable - Check CAM IP connectivity''
                  \<and> uncaught out = None
                  \<and> (\<forall>reqs. serve routes_index w
                         (\<lparr>req_method = GET, req_url = ''/api/stream'' @ qs, req_headers = hs\<rparr> # reqs)
                       = Inr out # serve routes_index w reqs)))"
proof (intro conjI impI)
  assume name: "name \<in> set (''sensor'' # motorCommands @ valveCommands)"
    and down: "\<forall>u. up_host u = ESP_CAR_IP index_js \<longrightarrow> (\<exists>err. upstream w u = Unreachable err)"
  let ?req = "\<lparr>req_method = GET, req_url = ''/api/'' @ name @ qs, req_headers = hs\<rparr>"
  let ?out = "\<lparr>up_host = ESP_CAR_IP index_js, up_method = GET, up_path = ''/'' @ name @ qs,
               up_headers = js_assign hs ''host'' (ESP_CAR_IP index_js)\<rparr>"
  have "\<exists>err. upstream w ?out = Unreachable err"
    using down[rule_format, of ?out] by simp
  then obtain err where err: "upstream w ?out = Unreachable err" ..
  have "\<exists>lines. handle routes_index w ?req =
          Inr \<lparr>upstream_calls = [?out], console = lines,
               reply = (cors fresh_response)\<lparr>headersSent := True, statusCode := 500,
                          res_body := Json [(''error'', ''Proxy error for '' @ name)]\<rparr>,
               uncaught = None\<rparr>"
  proof (cases "name = ''sensor''")
    case True
    have "proxy sensor_options_index w ?req (cors fresh_response) =
            Inr \<lparr>upstream_calls = [?out], console = [''Sensor proxy error: '' @ err],
                 reply = (cors fresh_response)\<lparr>headersSent := True, statusCode := 500,
                            res_body := Json [(''error'', ''Proxy error for '' @ name)]\<rparr>,
                 uncaught = None\<rparr>"
      using err outgoing_sensor_index[OF assms, of GET hs] True
      by (intro proxy_Unreachable[where h = "\<lambda>err req res. ([''Sensor proxy error: '' @ err], json_error ''sensor'' res)" and err = err, THEN trans])
         (simp_all add: sensor_options_index_def json_error_unsent[OF cors_fresh_unsent])
    moreover have "match_route routes_index ?req =
        Some \<lparr>route_path = ''/api/sensor'', route_handler = Proxy sensor_options_index\<rparr>"
      using match_sensor_index[OF assms, of hs] True by simp
    ultimately show ?thesis
      using handle_matched[where req = ?req and w = w and routes = routes_index] by simp
  next
    case False
    then have cmd: "name \<in> set (motorCommands @ valveCommands)" using name by simp
    have "proxy (motor_options_index name) w ?req (cors fresh_response) =
            Inr \<lparr>upstream_calls = [?out], console = [name @ '' proxy error: '' @ err],
                 reply = (cors fresh_response)\<lparr>headersSent := True, statusCode := 500,
                            res_body := Json [(''error'', ''Proxy error for '' @ name)]\<rparr>,
                 uncaught = None\<rparr>"
      using err outgoing_command_index[OF cmd assms, of GET hs]
      by (intro proxy_Unreachable[where h = "\<lambda>err req res. ([name @ '' proxy error: '' @ err], json_error name res)" and err = err, THEN trans])
         (simp_all add: motor_options_index_def json_error_unsent[OF cors_fresh_unsent])
    then show ?thesis
      using handle_matched[where req = ?req and w = w, OF _ match_command_index[OF cmd assms]]
      by simp
  qed
  then obtain out where out: "handle routes_index w ?req = Inr out"
    and "statusCode (reply out) = 500"
    and "res_body (reply out) = Json [(''error'', ''Proxy error for '' @ name)]"
    and un: "uncaught out = None"
    by force
  moreover have "\<forall>reqs. serve routes_index w (?req # reqs) = Inr out # serve routes_index w reqs"
    using serve_continues[OF out un] by simp
  ultimately show "\<exists>out. handle routes_index w ?req = Inr out \<and> statusCode (reply out) = 500
          \<and> res_body (reply out) = Json [(''error'', ''Proxy error for '' @ name)]
          \<and> uncaught out = None
          \<and> (\<forall>reqs. serve routes_index w (?req # reqs) = Inr out # serve routes_index w reqs)"
    by blast
next
  assume down: "\<forall>u. up_host u = ESP_CAM_IP index_js \<longrightarrow> (\<exists>err. upstream w u = Unreachable err)"
  let ?req = "\<lparr>req_method = GET, req_url = ''/api/stream'' @ qs, req_headers = hs\<rparr>"
  let ?out = "\<lparr>up_host = ESP_CAM_IP index_js, up_method = GET, up_path = ''/stream'' @ qs,
               up_headers = js_assign hs ''host'' (ESP_CAM_IP index_js)\<rparr>"
  have "\<exists>err. upstream w ?out = Unreachable err"
    using down[rule_format, of ?out] by simp
  then obtain err where err: "upstream w ?out = Unreachable err" ..
  have "proxy stream_options_index w ?req (cors fresh_response) =
          Inr \<lparr>upstream_calls = [?out], console = [''Stream proxy error: '' @ err],
               reply = (cors fresh_response)\<lparr>headersSent := True, statusCode := 500,
                          res_body := Text ''Stream unavailable - Check CAM IP connectivity''\<rparr>,
               uncaught = None\<rparr>"
    using err outgoing_stream_index[OF assms, of GET hs]
    by (intro proxy_Unreachable[where h = "\<lambda>err req res. ([''Stream proxy error: '' @ err],
           res_send ''Stream unavailable - Check CAM IP connectivity'' (res_status 500 res))" and err = err, THEN trans])
       (simp_all add: stream_options_index_def res_send_unsent[OF cors_fresh_unsent])
  then have "\<exists>out. handle routes_index w ?req = Inr out \<and> statusCode (reply out) = 500
          \<and> res_body (reply out) = Text ''Stream unavailable - Check CAM IP connectivity''
          \<and> uncaught out = None"
    using handle_matched[where req = ?req and w = w, OF _ match_stream_index[OF assms]]
    by simp
  then obtain out where out: "handle routes_index w ?req = Inr out"
    and "statusCode (reply out) = 500"
    and "res_body (reply out) = Text ''Stream unavailable - Check CAM IP connectivity''"
    and un: "uncaught out = None"
    by blast
  moreover have "\<forall>reqs. serve routes_index w (?req # reqs) = Inr out # serve routes_index w reqs"
    using serve_continues[OF out un] by simp
  ultimately show "\<exists>out. handle routes_index w ?req = Inr out \<and> statusCode (reply out) = 500
          \<and> res_body (reply out) = Text ''Stream unavailable - Check CAM IP connectivity''
          \<and> uncaught out = None
          \<and> (\<forall>reqs. serve routes_index w (?req # reqs) = Inr out # serve routes_index w reqs)"
    by blast
qed

lemma status_after_failure:
  "serve routes_index unreachable_world
     [\<lparr>req_method = GET, req_url = ''/api/status'', req_headers = []\<rparr>] =
   [Inr \<lparr>upstream_calls = [], console = [],
         reply = \<lparr>headersSent = True, statusCode = 200,
                  res_headers = [(''x-powered-by'', ''Express''),
                                 (''access-control-allow-origin'', ''*'')],
                  res_body = Json [(''status'', ''OK''), (''timestamp'', ''2025-01-01T00:00:00.000Z''),
                                   (''car_ip'', ''192.168.4.1''),
                                   (''cam_ip'', ''192.168.225.143'')]\<rparr>,
         uncaught = None\<rparr>]"
proof -
  let ?req = "\<lparr>req_method = GET, req_url = ''/api/status'', req_headers = []\<rparr>"
  have "handle routes_index unreachable_world ?req =
          status_handler index_js unreachable_world ?req (cors fresh_response)"
    using handle_matched[where req = ?req and w = unreachable_world and routes = routes_index,
        OF _ match_status(1)]
    by (simp add: pathname_def status_route_def status_handler_fresh)
  then show ?thesis
    by (simp add: status_handler_fresh unreachable_world_def index_js_def)
qed

theorem unreachable_upstream_gives_500_witness:
  "(\<exists>out. handle routes_index unreachable_world
              \<lparr>req_method = GET, req_url = ''/api/stop'', req_headers = []\<rparr> = Inr out
          \<and> statusCode (reply out) = 500
          \<and> res_body (reply out) = Json [(''error'', ''Proxy error for stop'')]
          \<and> uncaught out = None
          \<and> serve routes_index unreachable_world
              [\<lparr>req_method = GET, req_url = ''/api/stop'', req_headers = []\<rparr>,
               \<lparr>req_method = GET, req_url = ''/api/status'', req_headers = []\<rparr>] =
             [Inr out,
              Inr \<lparr>upstream_calls = [], console = [],
                   reply = \<lparr>headersSent = True, statusCode = 200,
                            res_headers = [(''x-powered-by'', ''Express''),
                                           (''access-control-allow-origin'', ''*'')],
                            res_body = Json [(''status'', ''OK''),
                                             (''timestamp'', ''2025-01-01T00:00:00.000Z''),
                                             (''car_ip'', ''192.168.4.1''),
                                             (''cam_ip'', ''192.168.225.143'')]\<rparr>,
                   uncaught = None\<rparr>])
   \<and> (\<exists>out. handle routes_index unreachable_world
              \<lparr>req_method = GET, req_url = ''/api/stream'', req_headers = []\<rparr> = Inr out
          \<and> statusCode (reply out) = 500
          \<and> res_body (reply out) = Text ''Stream unavailable - Check CAM IP connectivity''
          \<and> uncaught out = None
          \<and> serve routes_index unreachable_world
              [\<lparr>req_method = GET, req_url = ''/api/stream'', req_headers = []\<rparr>,
               \<lparr>req_method = GET, req_url = ''/api/status'', req_headers = []\<rparr>] =
             [Inr out,
              Inr \<lparr>upstream_calls = [], console = [],
                   reply = \<lparr>headersSent = True, statusCode = 200,
                            res_headers = [(''x-powered-by'', ''Express''),
                                           (''access-control-allow-origin'', ''*'')],
                            res_body = Json [(''status'', ''OK''),
                                             (''timestamp'', ''2025-01-01T00:00:00.000Z''),
                                             (''car_ip'', ''192.168.4.1''),
                                             (''cam_ip'', ''192.168.225.143'')]\<rparr>,
                   uncaught = None\<rparr>])"
proof -
  note inst = unreachable_upstream_gives_500[of "[]" "''stop''" unreachable_world "[]",
      OF disjI1[OF refl], unfolded append.simps append_Nil2]
  have name: "''stop'' \<in> set (''sensor'' # motorCommands @ valveCommands)"
    by (simp add: motorCommands_def)
  have down: "\<forall>u. up_host u = h \<longrightarrow> (\<exists>err. upstream unreachable_world u = Unreachable err)" for h
    by (simp add: unreachable_world_def)
  obtain a where a: "handle routes_index unreachable_world
              \<lparr>req_method = GET, req_url = ''/api/stop'', req_headers = []\<rparr> = Inr a"
      "statusCode (reply a) = 500"
      "res_body (reply a) = Json [(''error'', ''Proxy error for stop'')]"
      "uncaught a = None"
      "\<forall>reqs. serve routes_index unreachable_world
         (\<lparr>req_method = GET, req_url = ''/api/stop'', req_headers = []\<rparr> # reqs)
         = Inr a # serve routes_index unreachable_world reqs"
    using inst[THEN conjunct1] name down[of "ESP_CAR_IP index_js"] by blast
  obtain b where b: "handle routes_index unreachable_world
              \<lparr>req_method = GET, req_url = ''/api/stream'', req_headers = []\<rparr> = Inr b"
      "statusCode (reply b) = 500"
      "res_body (reply b) = Text ''Stream unavailable - Check CAM IP connectivity''"
      "uncaught b = None"
      "\<forall>reqs. serve routes_index unreachable_world
         (\<lparr>req_method = GET, req_url = ''/api/stream'', req_headers = []\<rparr> # reqs)
         = Inr b # serve routes_index unreachable_world reqs"
    using inst[THEN conjunct2] down[of "ESP_CAM_IP index_js"] by blast
  show ?thesis
    using a(1-4) b(1-4) a(5)[rule_format, of "[\<lparr>req_method = GET, req_url = ''/api/status'', req_headers = []\<rparr>]"]
      b(5)[rule_format, of "[\<lparr>req_method = GET, req_url = ''/api/status'', req_headers = []\<rparr>]"]
    by (simp only: status_after_failure) blast
qed

text \<open>
  The process does end in other settings. When the controller drops the connection after
  the first chunk of its answer, the error callback of a command route logs its line and
  then raises, because the headers of the response are sent: the client keeps the status
  and the chunk it got, and the request after this one is not served.
\<close>

lemma reset_ends_the_process:
  "\<exists>out. serve routes_index resetting_world
            [\<lparr>req_method = GET, req_url = ''/api/stop'', req_headers = []\<rparr>,
             \<lparr>req_method = GET, req_url = ''/api/status'', req_headers = []\<rparr>] = [Inr out]
        \<and> console out = [''stop proxy error: ECONNRESET'']
        \<and> statusCode (reply out) = 200
        \<and> res_body (reply out) = Chunks [''frame1'']
        \<and> uncaught out = Some ERR_HTTP_HEADERS_SENT"
proof -
  let ?req = "\<lparr>req_method = GET, req_url = ''/api/stop'', req_headers = []\<rparr>"
  have c: "''stop'' \<in> set (motorCommands @ valveCommands)"
    by (simp add: motorCommands_def)
  have "proxy (motor_options_index ''stop'') resetting_world ?req (cors fresh_response) =
          Inr \<lparr>upstream_calls = [setupOutgoing (motor_options_index ''stop'')
                    (?req\<lparr>req_url := rewritePath (pathRewrite (motor_options_index ''stop'')) (req_url ?req)\<rparr>)],
               console = [''stop proxy error: ECONNRESET''],
               reply = relayed (motor_options_index ''stop'') 200 [(''content-type'', ''image/jpeg'')]
                         [''frame1''] (cors fresh_response),
               uncaught = Some ERR_HTTP_HEADERS_SENT\<rparr>"
    by (rule proxy_Reset_raises[where h = "\<lambda>err req res. ([''stop'' @ '' proxy error: '' @ err], json_error ''stop'' res)"])
       (simp_all add: resetting_world_def motor_options_index_def json_error_sent[OF relayed_sent])
  then have "handle routes_index resetting_world ?req =
          Inr \<lparr>upstream_calls = [setupOutgoing (motor_options_index ''stop'')
                    (?req\<lparr>req_url := rewritePath (pathRewrite (motor_options_index ''stop'')) (req_url ?req)\<rparr>)],
               console = [''stop proxy error: ECONNRESET''],
               reply = relayed (motor_options_index ''stop'') 200 [(''content-type'', ''image/jpeg'')]
                         [''frame1''] (cors fresh_response),
               uncaught = Some ERR_HTTP_HEADERS_SENT\<rparr>"
    using handle_matched[where req = ?req and w = resetting_world,
        OF _ match_command_index[OF c, of "[]" "[]", simplified]]
    by simp
  then show ?thesis by (simp add: relayed_def writeHeaders_statusCode)
qed

subsection \<open>The route table and its options\<close>

lemma proxied_index:
  "proxied routes_index =
     [sensor_options_index,
      motor_options_index ''forward'', motor_options_index ''backward'',
      motor_options_index ''left'', motor_options_index ''right'', motor_options_index ''stop'',
      motor_options_index ''valve1_on'', motor_options_index ''valve1_off'',
      motor_options_index ''valve2_on'', motor_options_index ''valve2_off'',
      stream_options_index]"
  by (simp add: proxied_def routes_index_list status_route_def)

lemma proxied_part_000:
  "proxied routes_part_000 =
     [sensor_options_part_000,
      motor_options_part_000 ''forward'', motor_options_part_000 ''backward'',
      motor_options_part_000 ''left'', motor_options_part_000 ''right'', motor_options_part_000 ''stop'',
      motor_options_part_000 ''valve1_on'', motor_options_part_000 ''valve1_off'',
      motor_options_part_000 ''valve2_on'', motor_options_part_000 ''valve2_off'',
      stream_options_part_000]"
  by (simp add: proxied_def routes_part_000_list status_route_def)

lemmas options_defs =
  sensor_options_index_def motor_options_index_def stream_options_index_def
  sensor_options_part_000_def motor_options_part_000_def stream_options_part_000_def

text \<open>
  C9. Both variants register the same thirteen paths (status, sensor, five motor commands,
  four valve commands, stream and the root page); the paths are pairwise distinct, and the
  target of every proxied route is the controller (ten routes) or the camera (the stream
  route). The table is a constant of the program.
\<close>

theorem route_table_invariant:
  "map route_path routes_index =
     [''/api/status'', ''/api/sensor'', ''/api/forward'', ''/api/backward'', ''/api/left'',
      ''/api/right'', ''/api/stop'', ''/api/valve1_on'', ''/api/valve1_off'', ''/api/valve2_on'',
      ''/api/valve2_off'', ''/api/stream'', ''/'']
   \<and> map route_path routes_part_000 = map route_path routes_index
   \<and> distinct (map route_path routes_index)
   \<and> distinct (map route_path routes_part_000)
   \<and> map (\<lambda>opts. url_host (target opts)) (proxied routes_index)
       = replicate 10 (ESP_CAR_IP index_js) @ [ESP_CAM_IP index_js]
   \<and> map (\<lambda>opts. url_host (target opts)) (proxied routes_part_000)
       = replicate 10 (ESP_CAR_IP part_000) @ [ESP_CAM_IP part_000]"
proof -
  have p: "map route_path routes_index =
     [''/api/status'', ''/api/sensor'', ''/api/forward'', ''/api/backward'', ''/api/left'',
      ''/api/right'', ''/api/stop'', ''/api/valve1_on'', ''/api/valve1_off'', ''/api/valve2_on'',
      ''/api/valve2_off'', ''/api/stream'', ''/'']"
    by (simp add: routes_index_list status_route_def)
  have q: "map route_path routes_part_000 = map route_path routes_index"
    by (simp add: routes_index_list routes_part_000_list status_route_def)
  have d: "distinct (map route_path routes_index)"
    unfolding p by simp
  have t1: "map (\<lambda>opts. url_host (target opts)) (proxied routes_index)
       = replicate 10 (ESP_CAR_IP index_js) @ [ESP_CAM_IP index_js]"
    by (simp add: proxied_index options_defs url_host_def url_rest_def index_js_def
        numeral_eq_Suc)
  have t2: "map (\<lambda>opts. url_host (target opts)) (proxied routes_part_000)
       = replicate 10 (ESP_CAR_IP part_000) @ [ESP_CAM_IP part_000]"
    by (simp add: proxied_part_000 options_defs url_host_def url_rest_def part_000_def
        numeral_eq_Suc)
  show ?thesis using p q d t1 t2 by simp
qed

text \<open>
  C7, as stated, fails: the sensor route of \<^verbatim>\<open>src/index.js\<close> is a proxied route whose options
  set no timeout.
\<close>

theorem sensor_route_unbounded:
  "sensor_options_index \<in> set (proxied routes_index) \<and> \<not> timeouts_bounded sensor_options_index"
  by (simp add: proxied_index timeouts_bounded_def sensor_options_index_def)

text \<open>
  C7, amended. No proxied route of either variant sets \<open>timeout\<close> or \<open>proxyTimeout\<close>: the
  gateway itself puts no bound on the connect or idle time of a session.
\<close>

theorem no_route_sets_a_timeout:
  "\<forall>opts \<in> set (proxied routes_index @ proxied routes_part_000).
     timeout opts = None \<and> proxyTimeout opts = None"
  by (simp add: proxied_index proxied_part_000 options_defs)

theorem no_route_sets_a_timeout_witness:
  "timeout stream_options_index = None \<and> proxyTimeout stream_options_index = None"
  using no_route_sets_a_timeout by (simp add: proxied_index)

subsection \<open>The Host header\<close>

lemma setupOutgoing_host:
  assumes "changeOrigin opts"
  shows "map_of (up_headers (setupOutgoing opts req)) ''host'' = Some (url_host (target opts))"
    and "up_host (setupOutgoing opts req) = url_host (target opts)"
  using assms by (simp_all add: setupOutgoing_def map_of_js_assign)

lemma all_change_origin:
  "\<forall>opts \<in> set (proxied routes_index @ proxied routes_part_000). changeOrigin opts"
  by (simp add: proxied_index proxied_part_000 options_defs)

lemma route_options:
  assumes "rt \<in> set routes" and "route_handler rt = Proxy opts"
  shows "opts \<in> set (proxied routes)"
  using assms by (force simp: proxied_def)

lemma local_handlers_silent:
  "status_handler cfg w req res = Inr out \<Longrightarrow> upstream_calls out = []"
  "root_handler page w req res = Inr out \<Longrightarrow> upstream_calls out = []"
  by (auto simp: status_handler_def root_handler_def split: sum.splits)

lemma locals_of_tables:
  assumes "rt \<in> set routes_index \<or> rt \<in> set routes_part_000"
    and "route_handler rt = Local f" and "f w req res = Inr out"
  shows "upstream_calls out = []"
  using assms local_handlers_silent
  by (auto simp: routes_index_list routes_part_000_list status_route_def)

lemma handle_calls:
  assumes "handle routes w req = Inr out" and "u \<in> set (upstream_calls out)"
    and "routes = routes_index \<or> routes = routes_part_000"
  shows "\<exists>opts req'. opts \<in> set (proxied routes) \<and> u = setupOutgoing opts req'"
proof (cases "req_method req = OPTIONS")
  case True
  with assms show ?thesis by (auto simp: handle_def)
next
  case False
  show ?thesis
  proof (cases "match_route routes req")
    case None
    with False assms show ?thesis by (auto simp: handle_def answer_def split: if_splits)
  next
    case (Some rt)
    then obtain out' where run: "run_handler (route_handler rt) w req (cors fresh_response) = Inr out'"
      and out: "out = answer req out'"
      using False assms(1) by (auto simp: handle_def split: sum.splits)
    have u: "u \<in> set (upstream_calls out')"
      using assms(2) out by (simp add: answer_def split: if_splits)
    have rt: "rt \<in> set routes" using match_route_Some(1)[OF Some] .
    show ?thesis
    proof (cases "route_handler rt")
      case (Local f)
      then have "upstream_calls out' = []"
        using locals_of_tables[of rt _ w req "cors fresh_response" out'] rt run assms(3) by auto
      with u show ?thesis by simp
    next
      case (Proxy opts)
      then have "upstream_calls out' =
        [setupOutgoing opts (req\<lparr>req_url := rewritePath (pathRewrite opts) (req_url req)\<rparr>)]"
        using run proxy_calls by simp
      then show ?thesis using u route_options[OF rt Proxy] by auto
    next
      case (Piped opts)
      then show ?thesis using run by simp
    qed
  qed
qed


text \<open>
  C8. Every options object of either variant sets \<open>changeOrigin\<close>, so the upstream request
  built from any inbound request has the target's host as its \<^verbatim>\<open>host\<close> header, whatever the
  client sent; and every upstream request issued in handling a request carries the host of
  the device it goes to, which is the controller or the camera.
\<close>

theorem host_header_is_upstream_host:
  "(\<forall>opts \<in> set (proxied routes_index @ proxied routes_part_000).
      changeOrigin opts
      \<and> (\<forall>req. map_of (up_headers (setupOutgoing opts req)) ''host'' = Some (url_host (target opts))))
   \<and> (\<forall>out. handle routes_index w req = Inr out \<longrightarrow>
        (\<forall>u \<in> set (upstream_calls out).
           map_of (up_headers u) ''host'' = Some (up_host u)
           \<and> up_host u \<in> {ESP_CAR_IP index_js, ESP_CAM_IP index_js}))
   \<and> (\<forall>out. handle routes_part_000 w req = Inr out \<longrightarrow>
        (\<forall>u \<in> set (upstream_calls out).
           map_of (up_headers u) ''host'' = Some (up_host u)
           \<and> up_host u \<in> {ESP_CAR_IP part_000, ESP_CAM_IP part_000}))"
proof (intro conjI allI impI ballI)
  fix opts req
  assume "opts \<in> set (proxied routes_index @ proxied routes_part_000)"
  then show "changeOrigin opts" using all_change_origin by blast
  then show "map_of (up_headers (setupOutgoing opts req)) ''host'' = Some (url_host (target opts))"
    by (rule setupOutgoing_host(1))
next
  fix out u
  assume h: "handle routes_index w req = Inr out" "u \<in> set (upstream_calls out)"
  then obtain opts req' where o: "opts \<in> set (proxied routes_index)" "u = setupOutgoing opts req'"
    using handle_calls by blast
  then have c: "changeOrigin opts" using all_change_origin by simp
  show "map_of (up_headers u) ''host'' = Some (up_host u)"
    using setupOutgoing_host[OF c] o(2) by simp
  have "url_host (target opts) \<in> {ESP_CAR_IP index_js, ESP_CAM_IP index_js}"
    using o(1) by (auto simp: proxied_index options_defs url_host_def url_rest_def index_js_def)
  then show "up_host u \<in> {ESP_CAR_IP index_js, ESP_CAM_IP index_js}"
    using setupOutgoing_host(2)[OF c] o(2) by simp
next
  fix out u
  assume h: "handle routes_part_000 w req = Inr out" "u \<in> set (upstream_calls out)"
  then obtain opts req' where o: "opts \<in> set (proxied routes_part_000)" "u = setupOutgoing opts req'"
    using handle_calls by blast
  then have c: "changeOrigin opts" using all_change_origin by simp
  show "map_of (up_headers u) ''host'' = Some (up_host u)"
    using setupOutgoing_host[OF c] o(2) by simp
  have "url_host (target opts) \<in> {ESP_CAR_IP part_000, ESP_CAM_IP part_000}"
    using o(1) by (auto simp: proxied_part_000 options_defs url_host_def url_rest_def part_000_def)
  then show "up_host u \<in> {ESP_CAR_IP part_000, ESP_CAM_IP part_000}"
    using setupOutgoing_host(2)[OF c] o(2) by simp
qed

theorem host_header_is_upstream_host_witness:
  "changeOrigin (motor_options_index ''forward'')
   \<and> map_of (up_headers (setupOutgoing (motor_options_index ''forward'')
        \<lparr>req_method = GET, req_url = ''/forward'', req_headers = [(''host'', ''laptop:3000'')]\<rparr>))
        ''host'' = Some ''192.168.4.1''
   \<and> (\<exists>out. handle routes_index answering_world
          \<lparr>req_method = GET, req_url = ''/api/stream'', req_headers = [(''host'', ''laptop:3000'')]\<rparr>
          = Inr out
        \<and> map (\<lambda>u. map_of (up_headers u) ''host'') (upstream_calls out) = [Some ''192.168.225.143''])"
proof -
  let ?req = "\<lparr>req_method = GET, req_url = ''/api/stream'', req_headers = [(''host'', ''laptop:3000'')]\<rparr>"
  note inst = host_header_is_upstream_host[of answering_world ?req]
  have m: "motor_options_index ''forward'' \<in> set (proxied routes_index @ proxied routes_part_000)"
    by (simp add: proxied_index)
  have a: "changeOrigin (motor_options_index ''forward'')"
    and b: "map_of (up_headers (setupOutgoing (motor_options_index ''forward'')
        \<lparr>req_method = GET, req_url = ''/forward'', req_headers = [(''host'', ''laptop:3000'')]\<rparr>))
        ''host'' = Some (url_host (target (motor_options_index ''forward'')))"
    using inst m by blast+
  obtain out where out: "handle routes_index answering_world ?req = Inr out"
    using handle_index_total by blast
  then have calls: "upstream_calls out =
      [\<lparr>up_host = ESP_CAM_IP index_js, up_method = GET, up_path = ''/stream'',
        up_headers = js_assign [(''host'', ''laptop:3000'')] ''host'' (ESP_CAM_IP index_js)\<rparr>]"
    using handle_matched[where req = ?req and w = answering_world and routes = routes_index,
        OF _ match_stream_index[of "[]", simplified]] stream_index_total[of answering_world ?req]
      proxy_calls[of stream_options_index answering_world ?req "cors fresh_response"]
      outgoing_stream_index[of "[]" GET "[(''host'', ''laptop:3000'')]"]
    by auto
  have "\<forall>u \<in> set (upstream_calls out). map_of (up_headers u) ''host'' = Some (up_host u)"
    using inst out by blast
  then have c: "map (\<lambda>u. map_of (up_headers u) ''host'') (upstream_calls out) = [Some ''192.168.225.143'']"
    using calls by (simp add: index_js_def)
  show ?thesis
    using a b c out by (auto simp: motor_options_index_def url_host_def url_rest_def index_js_def)
qed

subsection \<open>The two variants on the command routes\<close>






subsection \<open>The stream route\<close>

lemma capital_keys:
  "toLowerCase ''Content-Type'' \<noteq> ''Content-Type''"
  "toLowerCase ''Access-Control-Allow-Origin'' \<noteq> ''Access-Control-Allow-Origin''"
  "toLowerCase ''Cache-Control'' \<noteq> ''Cache-Control''"
  "toLowerCase ''Pragma'' \<noteq> ''Pragma''"
  "toLowerCase ''Expires'' \<noteq> ''Expires''"
  by (simp_all add: toLowerCase_def lower_char_def)

lemma js_assign_after:
  assumes "lower_case_keys hs" and "toLowerCase k \<noteq> k"
  shows "js_assign (hs @ t) k v = hs @ js_assign t k v"
  using js_assign_append_fresh[OF upper_case_not_key[OF assms]] .

lemma stream_onProxyRes_index_append:
  assumes "lower_case_keys hs"
  shows "stream_onProxyRes_index hs = hs @
     [(''Content-Type'', ''multipart/x-mixed-replace; boundary=123456789000000000000987654321''),
      (''Access-Control-Allow-Origin'', ''*''),
      (''Cache-Control'', ''no-cache, no-store, must-revalidate''),
      (''Pragma'', ''no-cache''),
      (''Expires'', ''0'')]"
  using js_assign_after[OF assms capital_keys(1), of "[]"]
  by (simp add: stream_onProxyRes_index_def js_assign_after[OF assms] capital_keys)

lemma stream_headers_written:
  assumes "lower_case_keys hs"
  shows "stream_headers ((writeHeaders (stream_onProxyRes_index hs) r)
            \<lparr>headersSent := a, statusCode := b, res_body := c\<rparr>)"
  by (simp add: stream_headers_def getHeader_update stream_onProxyRes_index_append[OF assms]
      writeHeaders_append writeHeaders_Cons writeHeaders_Nil getHeader_setHeader
      toLowerCase_def lower_char_def)

text \<open>
  In \<^verbatim>\<open>src/index.js\<close>, a GET request to \<^verbatim>\<open>/api/stream\<close> that the camera answers gets a
  response with the Content-Type, Cache-Control, Pragma and Expires of \<open>stream_headers\<close>,
  whatever headers the camera sent.
\<close>

lemma index_stream_headers:
  assumes "qs = [] \<or> hd qs = CHR ''?''" and "lower_case_keys hs"
    and "upstream w \<lparr>up_host = ''192.168.225.143'', up_method = GET, up_path = ''/stream'' @ qs,
                      up_headers = js_assign rh ''host'' ''192.168.225.143''\<rparr>
           = Responded st hs chunks"
  shows "\<exists>out. handle routes_index w
                  \<lparr>req_method = GET, req_url = ''/api/stream'' @ qs, req_headers = rh\<rparr> = Inr out
              \<and> stream_headers (reply out) \<and> uncaught out = None"
proof -
  let ?req = "\<lparr>req_method = GET, req_url = ''/api/stream'' @ qs, req_headers = rh\<rparr>"
  have up: "upstream w (setupOutgoing stream_options_index
              (?req\<lparr>req_url := rewritePath (pathRewrite stream_options_index) (req_url ?req)\<rparr>))
            = Responded st hs chunks"
    using outgoing_stream_index[OF assms(1), of GET rh] assms(3) by (simp add: index_js_def)
  have "\<exists>out. proxy stream_options_index w ?req (cors fresh_response) = Inr out
          \<and> stream_headers (reply out) \<and> uncaught out = None"
    using proxy_Responded[OF up, of "cors fresh_response"] stream_headers_written[OF assms(2)]
    by (simp add: stream_options_index_def)
  then show ?thesis
    using handle_matched[where req = ?req and w = w and routes = routes_index,
        OF _ match_stream_index[OF assms(1)]] by auto
qed

lemma match_stream_part_000:
  "match_route routes_part_000 \<lparr>req_method = GET, req_url = ''/api/stream'', req_headers = hs\<rparr>
     = Some \<lparr>route_path = ''/api/stream'', route_handler = Piped stream_options_part_000\<rparr>"
  by (simp add: routes_part_000_list match_route_def handles_method_def route_matches_def
      toLowerCase_def lower_char_def pathname_def status_route_def)

text \<open>
  C2 holds of \<^verbatim>\<open>src/index.js\<close> and fails on the earlier variant. There, a GET request to
  \<^verbatim>\<open>/api/stream\<close> while the camera answers gets no response at all: the handler pipes the
  request into the promise that the middleware call returns and raises, and the process
  ends, so that the request after it is not served. \<^verbatim>\<open>src/index.js\<close>, which registers the
  middleware itself, answers the same request with the four headers.
\<close>

theorem part_000_stream_raises:
  "handle routes_part_000 answering_world
     \<lparr>req_method = GET, req_url = ''/api/stream'', req_headers = []\<rparr>
     = Inl (TypeError ''dest.on is not a function'')
   \<and> serve routes_part_000 answering_world
       [\<lparr>req_method = GET, req_url = ''/api/stream'', req_headers = []\<rparr>,
        \<lparr>req_method = GET, req_url = ''/api/status'', req_headers = []\<rparr>]
     = [Inl (TypeError ''dest.on is not a function'')]
   \<and> (\<exists>out. handle routes_index answering_world
                \<lparr>req_method = GET, req_url = ''/api/stream'', req_headers = []\<rparr> = Inr out
            \<and> stream_headers (reply out) \<and> uncaught out = None)"
proof -
  let ?req = "\<lparr>req_method = GET, req_url = ''/api/stream'', req_headers = []\<rparr>"
  have a: "handle routes_part_000 answering_world ?req = Inl (TypeError ''dest.on is not a function'')"
    by (simp add: handle_def match_stream_part_000)
  then have b: "serve routes_part_000 answering_world
       [?req, \<lparr>req_method = GET, req_url = ''/api/status'', req_headers = []\<rparr>]
     = [Inl (TypeError ''dest.on is not a function'')]"
    by simp
  have c: "\<exists>out. handle routes_index answering_world ?req = Inr out
            \<and> stream_headers (reply out) \<and> uncaught out = None"
    using index_stream_headers[of "[]"
      "[(''content-type'', ''image/jpeg''), (''access-control-allow-origin'', ''http://example.org'')]"
      answering_world "[]" 200 "[''frame1'', ''frame2'']"]
    by (simp add: answering_world_def lower_case_keys_def toLowerCase_def lower_char_def)
  show ?thesis using a b c by blast
qed

end
